theory Spec2Isabelle
  imports
    Complex_Main
    "HOL-Library.Char_ord"
    "HOL-Library.List_Lexorder"
    "HOL-Library.Multiset"
    "HOL-Library.Word"
begin

section \<open>JavaScript strings and thrown values\<close>

text \<open>
  File names, ids, MIME types and command arguments are ASCII in this program and are
  modelled as \<open>string\<close>. Error messages mix ASCII and CJK text, so a message is the list
  of its UTF-16 code units, which is what \<open>String.prototype.includes\<close> and
  \<open>toLowerCase\<close> work on.
\<close>

type_synonym jsstring = "nat list"

definition utf16 :: "string \<Rightarrow> jsstring" where
  "utf16 s = map of_char s"

text \<open>\<open>hay.includes(needle)\<close>: the needle occurs as a contiguous run.\<close>

primrec includes_js :: "'a list \<Rightarrow> 'a list \<Rightarrow> bool" where
  "includes_js [] needle = (needle = [])"
| "includes_js (c # cs) needle = (take (length needle) (c # cs) = needle \<or> includes_js cs needle)"

text \<open>
  \<open>toLowerCase\<close> on the letters A-Z; every other code unit is left as it is, which is
  exact for the messages this program throws (ASCII, CJK ideographs and full-width
  punctuation have no other case mapping).
\<close>

definition lower_unit :: "nat \<Rightarrow> nat" where
  "lower_unit u = (if 65 \<le> u \<and> u \<le> 90 then u + 32 else u)"

definition toLowerCase :: "jsstring \<Rightarrow> jsstring" where
  "toLowerCase s = map lower_unit s"

definition lower_char :: "char \<Rightarrow> char" where
  "lower_char c = (let u = (of_char c :: nat) in if 65 \<le> u \<and> u \<le> 90 then char_of (u + 32) else c)"

definition toLowerCase_str :: "string \<Rightarrow> string" where
  "toLowerCase_str s = map lower_char s"

text \<open>\<open>xs.join(sep)\<close>.\<close>

fun join :: "'a list \<Rightarrow> 'a list list \<Rightarrow> 'a list" where
  "join sep [] = []"
| "join sep [x] = x"
| "join sep (x # y # ys) = x @ sep @ join sep (y # ys)"

text \<open>\<open>s.split('.').pop()\<close>: the part of \<open>s\<close> after its last dot, all of \<open>s\<close> when it has none.\<close>

definition split_pop :: "char \<Rightarrow> string \<Rightarrow> string" where
  "split_pop d s = rev (takeWhile (\<lambda>c. c \<noteq> d) (rev s))"

text \<open>
  A thrown value: an \<open>Error\<close> object with its message, or something that is not an
  instance of \<open>Error\<close>.
\<close>

datatype thrown = Error (message: jsstring) | NonError

subsection \<open>The messages of the errors this program throws\<close>

text \<open>Each constant is the message of one \<open>new Error(...)\<close> of the source, code unit by code unit.\<close>

definition msg_not_loaded :: jsstring where
  "msg_not_loaded = [0x97F3, 0x9891, 0x5904, 0x7406, 0x5F15, 0x64CE, 0x672A, 0x52A0, 0x8F7D,
     0xFF0C, 0x8BF7, 0x5237, 0x65B0, 0x9875, 0x9762, 0x91CD, 0x8BD5]"

definition msg_too_large :: jsstring where
  "msg_too_large = [0x6587, 0x4EF6, 0x8FC7, 0x5927, 0xFF0C, 0x8BF7, 0x9009, 0x62E9, 0x5C0F,
     0x4E8E, 0x31, 0x30, 0x30, 0x4D, 0x42, 0x7684, 0x89C6, 0x9891, 0x6587, 0x4EF6]"

definition msg_unsupported_key :: jsstring where
  "msg_unsupported_key = [0x4E0D, 0x652F, 0x6301, 0x7684, 0x89C6, 0x9891, 0x683C, 0x5F0F]"

definition msg_unsupported_prefix :: jsstring where
  "msg_unsupported_prefix = msg_unsupported_key @
     [0x3002, 0x652F, 0x6301, 0x7684, 0x683C, 0x5F0F, 0xFF1A]"

definition msg_write_verify :: jsstring where
  "msg_write_verify = [0x6587, 0x4EF6, 0x5199, 0x5165, 0x9A8C, 0x8BC1, 0x5931, 0x8D25]"

definition msg_read_output :: jsstring where
  "msg_read_output = [0x97F3, 0x9891, 0x63D0, 0x53D6, 0x5931, 0x8D25, 0xFF1A, 0x65E0, 0x6CD5,
     0x8BFB, 0x53D6, 0x8F93, 0x51FA, 0x6587, 0x4EF6]"

definition msg_empty_output :: jsstring where
  "msg_empty_output = [0x97F3, 0x9891, 0x63D0, 0x53D6, 0x5931, 0x8D25, 0xFF1A, 0x8F93, 0x51FA,
     0x6587, 0x4EF6, 0x4E3A, 0x7A7A]"

definition msg_corrupt :: jsstring where
  "msg_corrupt = [0x89C6, 0x9891, 0x6587, 0x4EF6, 0x683C, 0x5F0F, 0x4E0D, 0x652F, 0x6301,
     0x6216, 0x6587, 0x4EF6, 0x5DF2, 0x635F, 0x574F, 0xFF0C, 0x8BF7, 0x5C1D, 0x8BD5, 0x5176,
     0x4ED6, 0x683C, 0x5F0F, 0x7684, 0x89C6, 0x9891, 0x6587, 0x4EF6]"

definition msg_io :: jsstring where
  "msg_io = [0x6587, 0x4EF6, 0x8BFB, 0x53D6, 0x5931, 0x8D25, 0xFF0C, 0x8BF7, 0x91CD, 0x65B0,
     0x9009, 0x62E9, 0x6587, 0x4EF6]"

definition msg_permission :: jsstring where
  "msg_permission = [0x6587, 0x4EF6, 0x8BBF, 0x95EE, 0x6743, 0x9650, 0x4E0D, 0x8DB3]"

definition msg_memory :: jsstring where
  "msg_memory = [0x5185, 0x5B58, 0x4E0D, 0x8DB3, 0xFF0C, 0x8BF7, 0x5C1D, 0x8BD5, 0x8F83,
     0x5C0F, 0x7684, 0x6587, 0x4EF6]"

definition msg_codec :: jsstring where
  "msg_codec = [0x89C6, 0x9891, 0x7F16, 0x7801, 0x683C, 0x5F0F, 0x4E0D, 0x652F, 0x6301,
     0xFF0C, 0x8BF7, 0x5C1D, 0x8BD5, 0x8F6C, 0x6362, 0x4E3A, 0x5E38, 0x89C1, 0x683C, 0x5F0F,
     0xFF08, 0x5982, 0x4D, 0x50, 0x34, 0xFF09, 0x540E, 0x91CD, 0x8BD5]"

definition msg_damaged :: jsstring where
  "msg_damaged = [0x89C6, 0x9891, 0x6587, 0x4EF6, 0x5DF2, 0x635F, 0x574F, 0xFF0C, 0x8BF7,
     0x68C0, 0x67E5, 0x6587, 0x4EF6, 0x5B8C, 0x6574, 0x6027]"

definition msg_generic :: jsstring where
  "msg_generic = [0x97F3, 0x9891, 0x63D0, 0x53D6, 0x5931, 0x8D25, 0xFF0C, 0x8BF7, 0x68C0,
     0x67E5, 0x89C6, 0x9891, 0x6587, 0x4EF6, 0x683C, 0x5F0F, 0x662F, 0x5426, 0x652F, 0x6301,
     0x6216, 0x5C1D, 0x8BD5, 0x5176, 0x4ED6, 0x89C6, 0x9891, 0x6587, 0x4EF6]"

definition msg_load_failed :: jsstring where
  "msg_load_failed = [0x65E0, 0x6CD5, 0x52A0, 0x8F7D, 0x97F3, 0x9891, 0x5904, 0x7406, 0x5F15,
     0x64CE, 0xFF0C, 0x8BF7, 0x68C0, 0x67E5, 0x7F51, 0x7EDC, 0x8FDE, 0x63A5, 0x6216, 0x7A0D,
     0x540E, 0x91CD, 0x8BD5]"

definition msg_validate_failed :: jsstring where
  "msg_validate_failed = utf16 ''FFmpeg'' @ [0x52A0, 0x8F7D, 0x540E, 0x9A8C, 0x8BC1, 0x5931, 0x8D25]"

definition msg_engine_lost :: jsstring where
  "msg_engine_lost = [0x97F3, 0x9891, 0x5904, 0x7406, 0x5F15, 0x64CE, 0x5F02, 0x5E38, 0xFF0C,
     0x8BF7, 0x91CD, 0x65B0, 0x52A0, 0x8F7D, 0x9875, 0x9762]"

definition msg_process_failed :: jsstring where
  "msg_process_failed = [0x5904, 0x7406, 0x5931, 0x8D25]"

text \<open>The message of a \<open>TypeError\<close> raised by a method call on \<open>null\<close>.\<close>

definition msg_null_deref :: jsstring where
  "msg_null_deref = utf16 ''Cannot read properties of null''"

section \<open>The job registry (useAppStore.ts)\<close>

type_synonym bytes = "8 word list"

record File =
  file_name :: string
  file_type :: string
  file_content :: bytes

definition file_size :: "File \<Rightarrow> nat" where
  "file_size f = length (file_content f)"

record Blob =
  blob_data :: bytes
  blob_type :: string

datatype status = Pending | Uploading | Uploaded | Processing | Completed | Failed

datatype progress_type = Upload_progress | Processing_progress

record VideoFile =
  fid :: string
  name :: string
  fsize :: nat
  ftype :: string
  fileObj :: File
  duration :: "real option"
  uploadProgress :: int
  processingProgress :: int
  status :: status
  audioUrl :: "string option"
  audioBlob :: "Blob option"
  audioFormat :: "string option"
  audioQuality :: "string option"
  error :: "jsstring option"
  createdAt :: nat

text \<open>
  A history record, without its random id and its time-stamped file name and date.
\<close>

record ProcessingHistory =
  originalFileName :: string
  historyUrl :: string
  historyBlob :: Blob
  historyFormat :: string
  historyQuality :: string
  historySize :: nat

record AppState =
  files :: "VideoFile list"
  history :: "ProcessingHistory list"
  ffmpegLoaded :: bool

text \<open>
  \<open>addFiles\<close>: the filter keeps a file when its name is not yet in the mutable set
  \<open>existingFileNames\<close>, and adds the name to the set.
\<close>

fun uniqueFiles :: "string set \<Rightarrow> File list \<Rightarrow> File list" where
  "uniqueFiles existingFileNames [] = []"
| "uniqueFiles existingFileNames (f # fs) =
     (if file_name f \<in> existingFileNames then uniqueFiles existingFileNames fs
      else f # uniqueFiles (insert (file_name f) existingFileNames) fs)"

text \<open>
  The descriptor built for one kept file; \<open>rid\<close> is the value of
  \<open>Math.random().toString(36).substr(2, 9)\<close> and \<open>now\<close> that of \<open>new Date()\<close>.
\<close>

definition newVideoFile :: "string \<Rightarrow> nat \<Rightarrow> File \<Rightarrow> VideoFile" where
  "newVideoFile rid now f =
     \<lparr> fid = rid, name = file_name f, fsize = file_size f, ftype = file_type f, fileObj = f,
       duration = None, uploadProgress = 0, processingProgress = 0, status = Pending,
       audioUrl = None, audioBlob = None, audioFormat = None, audioQuality = None,
       error = None, createdAt = now \<rparr>"

definition addFiles :: "(nat \<Rightarrow> string) \<Rightarrow> nat \<Rightarrow> File list \<Rightarrow> AppState \<Rightarrow> AppState" where
  "addFiles rnd now newFiles state =
     (let existingFileNames = set (map name (files state));
          kept = uniqueFiles existingFileNames newFiles;
          added = map (\<lambda>(i, f). newVideoFile (rnd i) now f) (enumerate 0 kept)
      in state\<lparr>files := files state @ added\<rparr>)"

definition removeFile :: "string \<Rightarrow> AppState \<Rightarrow> AppState" where
  "removeFile i state = state\<lparr>files := filter (\<lambda>f. fid f \<noteq> i) (files state)\<rparr>"

text \<open>
  \<open>updateFileProgress\<close>: the new value is
  \<open>Math.max(currentProgress, Math.min(100, Math.max(0, progress)))\<close>.
\<close>

definition set_progress :: "progress_type \<Rightarrow> int \<Rightarrow> VideoFile \<Rightarrow> VideoFile" where
  "set_progress ty progress f =
     (case ty of
        Upload_progress \<Rightarrow>
          f\<lparr>uploadProgress := max (uploadProgress f) (min 100 (max 0 progress))\<rparr>
      | Processing_progress \<Rightarrow>
          f\<lparr>processingProgress := max (processingProgress f) (min 100 (max 0 progress))\<rparr>)"

definition updateFileProgress :: "string \<Rightarrow> int \<Rightarrow> progress_type \<Rightarrow> AppState \<Rightarrow> AppState" where
  "updateFileProgress i progress ty state =
     state\<lparr>files := map (\<lambda>f. if fid f = i then set_progress ty progress f else f) (files state)\<rparr>"

definition updateFileStatus :: "string \<Rightarrow> status \<Rightarrow> AppState \<Rightarrow> AppState" where
  "updateFileStatus i st state =
     state\<lparr>files := map (\<lambda>f. if fid f = i then f\<lparr>status := st\<rparr> else f) (files state)\<rparr>"

text \<open>
  \<open>updateFileInfo\<close> spreads a \<open>Partial<VideoFile>\<close> over the descriptor; the partial
  object is modelled as the field update it performs.
\<close>

definition updateFileInfo :: "string \<Rightarrow> (VideoFile \<Rightarrow> VideoFile) \<Rightarrow> AppState \<Rightarrow> AppState" where
  "updateFileInfo i info state =
     state\<lparr>files := map (\<lambda>f. if fid f = i then info f else f) (files state)\<rparr>"

definition setFFmpegLoaded :: "bool \<Rightarrow> AppState \<Rightarrow> AppState" where
  "setFFmpegLoaded b state = state\<lparr>ffmpegLoaded := b\<rparr>"

definition addToHistory :: "ProcessingHistory \<Rightarrow> AppState \<Rightarrow> AppState" where
  "addToHistory item state = state\<lparr>history := item # history state\<rparr>"

definition clearFiles :: "AppState \<Rightarrow> AppState" where
  "clearFiles state = state\<lparr>files := []\<rparr>"

section \<open>Codec parameters (getQualityParams, getMimeType)\<close>

definition getQualityParams :: "string \<Rightarrow> string \<Rightarrow> string list" where
  "getQualityParams format quality =
     (if format = ''mp3'' then
        [''-acodec'', ''libmp3lame''] @
        (if quality = ''high'' then [''-b:a'', ''320k'']
         else if quality = ''medium'' then [''-b:a'', ''192k'']
         else if quality = ''low'' then [''-b:a'', ''128k'']
         else [])
      else if format = ''wav'' then
        [''-acodec'', ''pcm_s16le''] @
        (if quality = ''high'' then [''-ar'', ''48000'']
         else if quality = ''medium'' then [''-ar'', ''44100'']
         else if quality = ''low'' then [''-ar'', ''22050'']
         else [])
      else if format = ''aac'' then
        [''-acodec'', ''aac''] @
        (if quality = ''high'' then [''-b:a'', ''256k'']
         else if quality = ''medium'' then [''-b:a'', ''128k'']
         else if quality = ''low'' then [''-b:a'', ''96k'']
         else [])
      else [])"

definition getMimeType :: "string \<Rightarrow> string" where
  "getMimeType format =
     (if format = ''mp3'' then ''audio/mpeg''
      else if format = ''wav'' then ''audio/wav''
      else if format = ''aac'' then ''audio/aac''
      else ''audio/mpeg'')"

text \<open>The command extractAudio runs: \<open>['-i', input, '-vn', ...qualityParams, output]\<close>.\<close>

definition codec_command :: "string \<Rightarrow> string \<Rightarrow> string \<Rightarrow> string \<Rightarrow> string list" where
  "codec_command inputFileName outputFileName format quality =
     [''-i'', inputFileName, ''-vn''] @ getQualityParams format quality @ [outputFileName]"

section \<open>The engine wrapper (class FFmpegProcessor)\<close>

subsection \<open>The engine and the network, as the wrapper uses them\<close>

text \<open>
  The class \<open>FFmpeg\<close> comes from a library. An instance is a value of type \<open>'e\<close>, and
  each method returns what it throws or yields together with the instance afterwards.
\<close>

record 'e ffmpeg_api =
  new_FFmpeg :: "'e"
  ffmpeg_load :: "string \<Rightarrow> string \<Rightarrow> 'e \<Rightarrow> (thrown + unit) \<times> 'e"
  ffmpeg_exec :: "string list \<Rightarrow> 'e \<Rightarrow> (thrown + unit) \<times> 'e"
  ffmpeg_listDir :: "string \<Rightarrow> 'e \<Rightarrow> (thrown + string list) \<times> 'e"
  ffmpeg_writeFile :: "string \<Rightarrow> bytes \<Rightarrow> 'e \<Rightarrow> (thrown + unit) \<times> 'e"
  ffmpeg_readFile :: "string \<Rightarrow> 'e \<Rightarrow> (thrown + bytes) \<times> 'e"
  ffmpeg_deleteFile :: "string \<Rightarrow> 'e \<Rightarrow> (thrown + unit) \<times> 'e"

text \<open>
  The answer to a HEAD request: \<open>response.ok\<close> and the text
  \<open>${response.status}: ${response.statusText}\<close>. The network answers per url and
  attempt number (the url carries the attempt number and the time).
\<close>

datatype response = Response (ok: bool) (status_line: jsstring)

record network =
  fetch_head :: "string \<Rightarrow> nat \<Rightarrow> thrown + response"
  toBlobURL :: "string \<Rightarrow> string \<Rightarrow> nat \<Rightarrow> thrown + string"

record 'e FFmpegProcessor =
  ffmpeg :: "'e option"
  loaded :: bool

definition initial_processor :: "'e FFmpegProcessor" where
  "initial_processor = \<lparr> ffmpeg = None, loaded = False \<rparr>"

subsection \<open>load\<close>

definition cdnSources :: "string list" where
  "cdnSources =
     [''https://unpkg.com/@ffmpeg/core@0.12.6/dist/esm'',
      ''https://cdn.jsdelivr.net/npm/@ffmpeg/core@0.12.6/dist/esm'',
      ''https://fastly.jsdelivr.net/npm/@ffmpeg/core@0.12.6/dist/esm'']"

text \<open>A number in a template string.\<close>

fun decimal :: "nat \<Rightarrow> string" where
  "decimal n =
     (if n < 10 then [char_of (48 + n)]
      else decimal (n div 10) @ [char_of (48 + n mod 10)])"

declare decimal.simps [simp del]

text \<open>
  \<open>loadWithRetry\<close>: attempt \<open>i\<close> with \<open>n\<close> attempts left and the last error so far. The
  waits between attempts take time and change nothing else. What \<open>fetch\<close> and
  \<open>toBlobURL\<close> throw is taken to be truthy, so that \<open>lastError || new Error(...)\<close> is the
  last error whenever an attempt was made.
\<close>

fun loadWithRetry_loop ::
  "network \<Rightarrow> string \<Rightarrow> string \<Rightarrow> nat \<Rightarrow> nat \<Rightarrow> nat \<Rightarrow> thrown option \<Rightarrow> thrown + string" where
  "loadWithRetry_loop net url ty maxRetries i 0 lastError =
     (case lastError of
        Some e \<Rightarrow> Inl e
      | None \<Rightarrow>
          Inl (Error (utf16 (''Failed to load '' @ url @ '' after '' @ decimal maxRetries
                             @ '' attempts''))))"
| "loadWithRetry_loop net url ty maxRetries i (Suc n) lastError =
     (case fetch_head net url i of
        Inl e \<Rightarrow> loadWithRetry_loop net url ty maxRetries (Suc i) n (Some e)
      | Inr r \<Rightarrow>
          if \<not> ok r then
            loadWithRetry_loop net url ty maxRetries (Suc i) n
              (Some (Error (utf16 ''HTTP '' @ status_line r)))
          else
            (case toBlobURL net url ty i of
               Inl e \<Rightarrow> loadWithRetry_loop net url ty maxRetries (Suc i) n (Some e)
             | Inr blobURL \<Rightarrow> Inr blobURL))"

text \<open>The callers leave \<open>maxRetries\<close> at its default, 3.\<close>

definition loadWithRetry :: "network \<Rightarrow> string \<Rightarrow> string \<Rightarrow> thrown + string" where
  "loadWithRetry net url ty = loadWithRetry_loop net url ty 3 0 3 None"

text \<open>\<open>this.ffmpeg.load(...)\<close>; on \<open>null\<close> the call raises a \<open>TypeError\<close>.\<close>

definition instance_load ::
  "'e ffmpeg_api \<Rightarrow> string \<Rightarrow> string \<Rightarrow> 'e FFmpegProcessor \<Rightarrow> (thrown + unit) \<times> 'e FFmpegProcessor" where
  "instance_load api coreURL wasmURL p =
     (case ffmpeg p of
        None \<Rightarrow> (Inl (Error msg_null_deref), p)
      | Some e \<Rightarrow>
          (case ffmpeg_load api coreURL wasmURL e of (r, e') \<Rightarrow> (r, p\<lparr>ffmpeg := Some e'\<rparr>)))"

definition validateFFmpeg ::
  "'e ffmpeg_api \<Rightarrow> 'e FFmpegProcessor \<Rightarrow> (thrown + unit) \<times> 'e FFmpegProcessor" where
  "validateFFmpeg api p =
     (case ffmpeg p of
        None \<Rightarrow> (Inl (Error (utf16 ''FFmpeg instance is null'')), p)
      | Some e \<Rightarrow>
          (case ffmpeg_exec api [''-version''] e of
             (Inl err, e') \<Rightarrow> (Inl (Error msg_validate_failed), p\<lparr>ffmpeg := Some e'\<rparr>)
           | (Inr u, e') \<Rightarrow> (Inr (), p\<lparr>ffmpeg := Some e'\<rparr>)))"

text \<open>The inner \<open>try\<close> of the loop body: load from the source's urls, then validate.\<close>

definition directInit ::
  "'e ffmpeg_api \<Rightarrow> string \<Rightarrow> 'e FFmpegProcessor \<Rightarrow> (thrown + unit) \<times> 'e FFmpegProcessor" where
  "directInit api baseURL p =
     (case instance_load api (baseURL @ ''/ffmpeg-core.js'') (baseURL @ ''/ffmpeg-core.wasm'') p of
        (Inl e, p1) \<Rightarrow> (Inl e, p1)
      | (Inr u, p1) \<Rightarrow>
          (case validateFFmpeg api p1 of
             (Inl e, p2) \<Rightarrow> (Inl e, p2)
           | (Inr u, p2) \<Rightarrow> (Inr (), p2\<lparr>loaded := True\<rparr>)))"

text \<open>
  The inner \<open>catch\<close>: fetch both artifacts with retries, load from the blob urls, then
  validate.
\<close>

definition stagedInit ::
  "'e ffmpeg_api \<Rightarrow> network \<Rightarrow> string \<Rightarrow> 'e FFmpegProcessor \<Rightarrow> (thrown + unit) \<times> 'e FFmpegProcessor" where
  "stagedInit api net baseURL p =
     (case loadWithRetry net (baseURL @ ''/ffmpeg-core.js'') ''text/javascript'' of
        Inl e \<Rightarrow> (Inl e, p)
      | Inr coreURL \<Rightarrow>
          (case loadWithRetry net (baseURL @ ''/ffmpeg-core.wasm'') ''application/wasm'' of
             Inl e \<Rightarrow> (Inl e, p)
           | Inr wasmURL \<Rightarrow>
               (case instance_load api coreURL wasmURL p of
                  (Inl e, p1) \<Rightarrow> (Inl e, p1)
                | (Inr u, p1) \<Rightarrow>
                    (case validateFFmpeg api p1 of
                       (Inl e, p2) \<Rightarrow> (Inl e, p2)
                     | (Inr u, p2) \<Rightarrow> (Inr (), p2\<lparr>loaded := True\<rparr>)))))"

text \<open>One iteration of the loop over the sources, with its outer \<open>catch\<close>.\<close>

definition trySource ::
  "'e ffmpeg_api \<Rightarrow> network \<Rightarrow> string \<Rightarrow> 'e FFmpegProcessor \<Rightarrow> (thrown + unit) \<times> 'e FFmpegProcessor" where
  "trySource api net baseURL p =
     (case directInit api baseURL p of
        (Inr u, p1) \<Rightarrow> (Inr (), p1)
      | (Inl directError, p1) \<Rightarrow>
          (case stagedInit api net baseURL p1 of
             (Inr u, p2) \<Rightarrow> (Inr (), p2)
           | (Inl e, p2) \<Rightarrow> (Inl e, p2\<lparr>ffmpeg := None, loaded := False\<rparr>)))"

fun loadSources ::
  "'e ffmpeg_api \<Rightarrow> network \<Rightarrow> string list \<Rightarrow> 'e FFmpegProcessor \<Rightarrow> (thrown + unit) \<times> 'e FFmpegProcessor" where
  "loadSources api net [] p = (Inl (Error msg_load_failed), p\<lparr>ffmpeg := None, loaded := False\<rparr>)"
| "loadSources api net (baseURL # rest) p =
     (case trySource api net baseURL p of
        (Inr u, p1) \<Rightarrow> (Inr (), p1)
      | (Inl e, p1) \<Rightarrow> loadSources api net rest p1)"

text \<open>\<open>load\<close>, for a list of sources; the source's list is \<open>cdnSources\<close>.\<close>

definition loadFrom ::
  "string list \<Rightarrow> 'e ffmpeg_api \<Rightarrow> network \<Rightarrow> 'e FFmpegProcessor \<Rightarrow> (thrown + unit) \<times> 'e FFmpegProcessor" where
  "loadFrom sources api net p =
     (if loaded p \<and> ffmpeg p \<noteq> None then (Inr (), p)
      else loadSources api net sources (p\<lparr>ffmpeg := Some (new_FFmpeg api)\<rparr>))"

definition load ::
  "'e ffmpeg_api \<Rightarrow> network \<Rightarrow> 'e FFmpegProcessor \<Rightarrow> (thrown + unit) \<times> 'e FFmpegProcessor" where
  "load = loadFrom cdnSources"

definition isLoaded_processor :: "'e FFmpegProcessor \<Rightarrow> bool" where
  "isLoaded_processor p = loaded p"

text \<open>The test at the head of \<open>load\<close> and of \<open>extractAudio\<close>.\<close>

definition engine_ready :: "'e FFmpegProcessor \<Rightarrow> bool" where
  "engine_ready p = (loaded p \<and> ffmpeg p \<noteq> None)"

text \<open>
  A source fails: in whatever state the wrapper is, direct initialisation from it throws
  and so does the staged path.
\<close>

definition source_fails :: "'e ffmpeg_api \<Rightarrow> network \<Rightarrow> string \<Rightarrow> bool" where
  "source_fails api net baseURL =
     (\<forall>p. isl (fst (directInit api baseURL p)) \<and> isl (fst (stagedInit api net baseURL p)))"

subsection \<open>extractAudio\<close>

text \<open>
  The calls made on the engine instance, in order. A call is recorded whether it throws
  or not.
\<close>

datatype call =
    ListDir string
  | WriteFile string bytes
  | ReadFile string
  | DeleteFile string
  | Exec "string list"
  | OnProgress
  | OffProgress

type_synonym 'e ctx = "'e \<times> call list"

definition do_listDir :: "'e ffmpeg_api \<Rightarrow> string \<Rightarrow> 'e ctx \<Rightarrow> (thrown + string list) \<times> 'e ctx" where
  "do_listDir api path c =
     (case ffmpeg_listDir api path (fst c) of (r, e') \<Rightarrow> (r, (e', snd c @ [ListDir path])))"

definition do_writeFile :: "'e ffmpeg_api \<Rightarrow> string \<Rightarrow> bytes \<Rightarrow> 'e ctx \<Rightarrow> (thrown + unit) \<times> 'e ctx" where
  "do_writeFile api path d c =
     (case ffmpeg_writeFile api path d (fst c) of (r, e') \<Rightarrow> (r, (e', snd c @ [WriteFile path d])))"

definition do_readFile :: "'e ffmpeg_api \<Rightarrow> string \<Rightarrow> 'e ctx \<Rightarrow> (thrown + bytes) \<times> 'e ctx" where
  "do_readFile api path c =
     (case ffmpeg_readFile api path (fst c) of (r, e') \<Rightarrow> (r, (e', snd c @ [ReadFile path])))"

definition do_deleteFile :: "'e ffmpeg_api \<Rightarrow> string \<Rightarrow> 'e ctx \<Rightarrow> (thrown + unit) \<times> 'e ctx" where
  "do_deleteFile api path c =
     (case ffmpeg_deleteFile api path (fst c) of (r, e') \<Rightarrow> (r, (e', snd c @ [DeleteFile path])))"

definition do_exec :: "'e ffmpeg_api \<Rightarrow> string list \<Rightarrow> 'e ctx \<Rightarrow> (thrown + unit) \<times> 'e ctx" where
  "do_exec api command c =
     (case ffmpeg_exec api command (fst c) of (r, e') \<Rightarrow> (r, (e', snd c @ [Exec command])))"

definition note_call :: "call \<Rightarrow> 'e ctx \<Rightarrow> 'e ctx" where
  "note_call k c = (fst c, snd c @ [k])"

subsubsection \<open>The checks before the file is written\<close>

definition supportedTypes :: "string list" where
  "supportedTypes =
     [''video/mp4'', ''video/avi'', ''video/mov'', ''video/mkv'', ''video/webm'',
      ''video/quicktime'', ''video/x-msvideo'', ''video/x-matroska'',
      ''video/mp2t'', ''video/3gpp'', ''video/x-flv'', ''video/x-ms-wmv'']"

definition supportedExtensions :: "string list" where
  "supportedExtensions =
     [''mp4'', ''avi'', ''mov'', ''mkv'', ''webm'', ''flv'', ''3gp'', ''wmv'', ''ts'', ''m4v'']"

definition fileExtension :: "File \<Rightarrow> string" where
  "fileExtension f = toLowerCase_str (split_pop CHR ''.'' (file_name f))"

definition isTypeSupported :: "File \<Rightarrow> bool" where
  "isTypeSupported f = (if file_type f \<noteq> [] then file_type f \<in> set supportedTypes else False)"

definition isExtensionSupported :: "File \<Rightarrow> bool" where
  "isExtensionSupported f =
     (if fileExtension f \<noteq> [] then fileExtension f \<in> set supportedExtensions else False)"

definition msg_unsupported :: jsstring where
  "msg_unsupported = msg_unsupported_prefix @ utf16 (join '', '' supportedExtensions)"

definition sizeLimit :: nat where
  "sizeLimit = 100 * 1024 * 1024"

definition preflight :: "File \<Rightarrow> thrown option" where
  "preflight f =
     (if file_size f > sizeLimit then Some (Error msg_too_large)
      else if \<not> isTypeSupported f \<and> \<not> isExtensionSupported f then Some (Error msg_unsupported)
      else None)"

subsubsection \<open>Writing the input and reading it back\<close>

text \<open>
  The result says whether the size mismatch was logged; the source only writes it to the
  console and goes on.
\<close>

definition writeAndVerify ::
  "'e ffmpeg_api \<Rightarrow> string \<Rightarrow> File \<Rightarrow> 'e ctx \<Rightarrow> (thrown + bool) \<times> 'e ctx" where
  "writeAndVerify api inputFileName f c =
     (let fileData = file_content f; originalSize = length fileData
      in case do_writeFile api inputFileName fileData c of
           (Inl e, c1) \<Rightarrow> (Inl e, c1)
         | (Inr u, c1) \<Rightarrow>
             (case do_readFile api inputFileName c1 of
                (Inl verifyError, c2) \<Rightarrow> (Inl (Error msg_write_verify), c2)
              | (Inr writtenFileData, c2) \<Rightarrow> (Inr (length writtenFileData \<noteq> originalSize), c2)))"

subsubsection \<open>Running the command and reporting progress\<close>

text \<open>
  What happens while \<open>exec\<close> is pending: the engine emits a progress event with a
  fraction, or the 300 ms timer fires and draws \<open>Math.random()\<close>.

  The three arithmetic results of the source, \<open>progress * 100\<close>,
  \<open>Math.random() * 2 + 0.5\<close> and \<open>lastProgress + increment\<close>, are rounded IEEE doubles,
  which this theory does not compute. An event carries the double the machine computed:
  \<open>EngineProgress x\<close> the value \<open>x\<close> of \<open>progress * 100\<close>, and \<open>TimerTick s\<close> the value
  \<open>s\<close> of \<open>lastProgress + increment\<close> at that tick. Every finite double is a real number,
  and \<open>Math.round\<close>, \<open>Math.min\<close> and the comparisons are exact on doubles, so the model
  replays the source on these values. An event whose fraction is not a finite number is
  left out.
\<close>

datatype exec_event = EngineProgress real | TimerTick real

text \<open>\<open>Math.round\<close>: the nearest integer, a tie going up.\<close>

definition js_round :: "real \<Rightarrow> int" where
  "js_round x = \<lfloor>x + 1 / 2\<rfloor>"

text \<open>
  One event, on \<open>lastProgress\<close> and the values passed to \<open>onProgress\<close> so far
  (\<open>isCompleted\<close> is false while the command runs).
\<close>

fun progress_step :: "exec_event \<Rightarrow> real \<times> int list \<Rightarrow> real \<times> int list" where
  "progress_step (EngineProgress x) (lastProgress, reports) =
     (let progressPercent = js_round x
      in if of_int progressPercent > lastProgress
         then (of_int progressPercent, reports @ [progressPercent])
         else (lastProgress, reports))"
| "progress_step (TimerTick s) (lastProgress, reports) =
     (if lastProgress < 95 then
        (let newProgress = min s 95
         in if newProgress > lastProgress
            then (newProgress, reports @ [js_round newProgress])
            else (lastProgress, reports))
      else (lastProgress, reports))"

definition progress_during :: "exec_event list \<Rightarrow> real \<times> int list" where
  "progress_during schedule = fold progress_step schedule (0, [])"

definition runCommand ::
  "'e ffmpeg_api \<Rightarrow> string list \<Rightarrow> exec_event list \<Rightarrow> bool \<Rightarrow> 'e ctx
     \<Rightarrow> (thrown + unit) \<times> int list \<times> 'e ctx" where
  "runCommand api command schedule onProgress c =
     (let c0 = (if onProgress then note_call OnProgress c else c);
          reports = (if onProgress then snd (progress_during schedule) else [])
      in case do_exec api command c0 of
           (Inr u, c1) \<Rightarrow>
             (Inr (), reports @ (if onProgress then [100] else []),
              if onProgress then note_call OffProgress c1 else c1)
         | (Inl execError, c1) \<Rightarrow>
             (Inl execError, reports, if onProgress then note_call OffProgress c1 else c1))"

text \<open>The percentages the engine itself reports during a schedule.\<close>

primrec genuine_percent :: "exec_event \<Rightarrow> int list" where
  "genuine_percent (EngineProgress x) = [js_round x]"
| "genuine_percent (TimerTick s) = []"

definition genuine_percents :: "exec_event list \<Rightarrow> int list" where
  "genuine_percents schedule = concat (map genuine_percent schedule)"

text \<open>
  What every event keeps: the reported values are in order, and none is above the
  rounding of the running value.
\<close>

definition progress_inv :: "real \<times> int list \<Rightarrow> bool" where
  "progress_inv s = (sorted (snd s) \<and> list_all (\<lambda>v. of_int v \<le> fst s + 1 / 2) (snd s))"

subsubsection \<open>Reading the output and cleaning up\<close>

definition readOutput :: "'e ffmpeg_api \<Rightarrow> string \<Rightarrow> 'e ctx \<Rightarrow> (thrown + bytes) \<times> 'e ctx" where
  "readOutput api outputFileName c =
     (case do_listDir api ''/'' c of
        (Inl readError, c1) \<Rightarrow> (Inl (Error msg_read_output), snd (do_listDir api ''/'' c1))
      | (Inr filesAfterExec, c1) \<Rightarrow>
          (case do_readFile api outputFileName c1 of
             (Inl readError, c2) \<Rightarrow> (Inl (Error msg_read_output), snd (do_listDir api ''/'' c2))
           | (Inr d, c2) \<Rightarrow> (Inr d, c2)))"

definition cleanup :: "'e ffmpeg_api \<Rightarrow> string \<Rightarrow> string \<Rightarrow> 'e ctx \<Rightarrow> 'e ctx" where
  "cleanup api inputFileName outputFileName c =
     (case do_deleteFile api inputFileName c of
        (Inl cleanupError, c1) \<Rightarrow> c1
      | (Inr u, c1) \<Rightarrow> snd (do_deleteFile api outputFileName c1))"

subsubsection \<open>The try block and its catch\<close>

definition extract_try ::
  "'e ffmpeg_api \<Rightarrow> string \<Rightarrow> string \<Rightarrow> exec_event list \<Rightarrow> bool \<Rightarrow> File \<Rightarrow> string \<Rightarrow> string
     \<Rightarrow> 'e ctx \<Rightarrow> (thrown + Blob) \<times> int list \<times> 'e ctx" where
  "extract_try api inputFileName outputFileName schedule onProgress f format quality c =
     (case preflight f of
        Some e \<Rightarrow> (Inl e, [], c)
      | None \<Rightarrow>
          (case writeAndVerify api inputFileName f c of
             (Inl e, c1) \<Rightarrow> (Inl e, [], c1)
           | (Inr mismatchLogged, c1) \<Rightarrow>
               (case runCommand api (codec_command inputFileName outputFileName format quality)
                       schedule onProgress c1 of
                  (Inl e, reports, c2) \<Rightarrow> (Inl e, reports, c2)
                | (Inr u, reports, c2) \<Rightarrow>
                    (case readOutput api outputFileName c2 of
                       (Inl e, c3) \<Rightarrow> (Inl e, reports, c3)
                     | (Inr d, c3) \<Rightarrow>
                         if length d = 0 then (Inl (Error msg_empty_output), reports, c3)
                         else (Inr \<lparr> blob_data = d, blob_type = getMimeType format \<rparr>, reports,
                               cleanup api inputFileName outputFileName c3)))))"

text \<open>The message tests of the catch block, in the source's order.\<close>

definition classify :: "thrown \<Rightarrow> thrown" where
  "classify err =
     (case err of
        NonError \<Rightarrow> Error msg_generic
      | Error m \<Rightarrow>
          (let errorMessage = toLowerCase m
           in if includes_js errorMessage (utf16 ''invalid data found'')
                 \<or> includes_js errorMessage (utf16 ''invalid argument'') then Error msg_corrupt
              else if includes_js errorMessage (utf16 ''no such file'')
                 \<or> includes_js errorMessage (utf16 ''file not found'') then Error msg_io
              else if includes_js errorMessage (utf16 ''permission denied'') then Error msg_permission
              else if includes_js errorMessage (utf16 ''out of memory'')
                 \<or> includes_js errorMessage (utf16 ''memory'') then Error msg_memory
              else if includes_js errorMessage (utf16 ''codec'')
                 \<or> includes_js errorMessage (utf16 ''format'') then Error msg_codec
              else if includes_js errorMessage (utf16 ''corrupted'')
                 \<or> includes_js errorMessage (utf16 ''damaged'') then Error msg_damaged
              else if includes_js m msg_unsupported_key then Error m
              else Error msg_generic))"

definition extract_catch ::
  "'e ffmpeg_api \<Rightarrow> string \<Rightarrow> string \<Rightarrow> thrown \<Rightarrow> 'e ctx \<Rightarrow> thrown \<times> 'e ctx" where
  "extract_catch api inputFileName outputFileName err c =
     (let c1 = snd (do_listDir api ''/'' c);
          c2 = snd (do_deleteFile api inputFileName c1);
          c3 = snd (do_deleteFile api outputFileName c2)
      in (classify err, c3))"

definition inputName :: "string \<Rightarrow> File \<Rightarrow> string" where
  "inputName uniqueId f =
     ''input_'' @ uniqueId @ ''.'' @
       (if split_pop CHR ''.'' (file_name f) = [] then ''mp4'' else split_pop CHR ''.'' (file_name f))"

definition outputName :: "string \<Rightarrow> string \<Rightarrow> string" where
  "outputName uniqueId format = ''output_'' @ uniqueId @ ''.'' @ format"

text \<open>
  \<open>extractAudio\<close>. \<open>uniqueId\<close> is the time stamp and random suffix the call draws,
  \<open>schedule\<close> the events while the command runs, \<open>onProgress\<close> whether a callback was
  passed. The result holds what the call returns or throws, the values passed to the
  callback, the calls made on the engine, and the wrapper afterwards.
\<close>

definition extractAudio ::
  "'e ffmpeg_api \<Rightarrow> string \<Rightarrow> exec_event list \<Rightarrow> bool \<Rightarrow> File \<Rightarrow> string \<Rightarrow> string
     \<Rightarrow> 'e FFmpegProcessor \<Rightarrow> (thrown + Blob) \<times> int list \<times> call list \<times> 'e FFmpegProcessor" where
  "extractAudio api uniqueId schedule onProgress videoFile outputFormat quality p =
     (case ffmpeg p of
        None \<Rightarrow> (Inl (Error msg_not_loaded), [], [], p)
      | Some e \<Rightarrow>
          if \<not> loaded p then (Inl (Error msg_not_loaded), [], [], p)
          else
            (let inputFileName = inputName uniqueId videoFile;
                 outputFileName = outputName uniqueId outputFormat;
                 c0 = snd (do_listDir api ''/'' (e, []))
             in case extract_try api inputFileName outputFileName schedule onProgress
                       videoFile outputFormat quality c0 of
                  (Inr blob, reports, c) \<Rightarrow> (Inr blob, reports, snd c, p\<lparr>ffmpeg := Some (fst c)\<rparr>)
                | (Inl err, reports, c) \<Rightarrow>
                    (case extract_catch api inputFileName outputFileName err c of
                       (err', c') \<Rightarrow> (Inl err', reports, snd c', p\<lparr>ffmpeg := Some (fst c')\<rparr>))))"

section \<open>The batch orchestrator (Processing.tsx)\<close>

subsection \<open>The re-run guard\<close>

text \<open>The two refs of the page: \<open>hasStartedProcessingRef\<close> and \<open>filesHashRef\<close>.\<close>

record guard =
  hasStartedProcessingRef :: bool
  filesHashRef :: string






definition completedInfo :: "string \<Rightarrow> Blob \<Rightarrow> VideoFile \<Rightarrow> VideoFile" where
  "completedInfo url blob f =
     f\<lparr>audioUrl := Some url, audioBlob := Some blob, audioFormat := Some ''mp3'',
       audioQuality := Some ''high'', status := Completed\<rparr>"


subsection \<open>A batch run\<close>

text \<open>
  What the page uses of the engine wrapper and of the browser: \<open>isLoaded\<close>,
  \<open>extractAudio\<close> (its result, the values it passed to the progress callback, and the
  wrapper afterwards) and \<open>URL.createObjectURL\<close>.
\<close>

record 'p processor_api =
  isLoaded :: "'p \<Rightarrow> bool"
  extractAudio_of :: "File \<Rightarrow> string \<Rightarrow> string \<Rightarrow> 'p \<Rightarrow> (thrown + Blob) \<times> int list \<times> 'p"
  createObjectURL :: "Blob \<Rightarrow> string"

datatype toast =
    ToastNotReady
  | ToastJobFailed string jsstring
  | ToastAllDone nat
  | ToastSummary nat nat
  | ToastNoneSucceeded

datatype run_signal = Skipped | NotReady | Advance | Failure

text \<open>
  The state a run works on: the store, the engine wrapper, the refs, the \<open>isProcessing\<close>
  state, and what the run has emitted: the collected results, the toasts, and the ids of
  the jobs passed to \<open>extractAudio\<close>.
\<close>

record 'p page =
  store :: AppState
  processor :: 'p
  refs :: guard
  isProcessingState :: bool
  processedFiles :: "ProcessingHistory list"
  toasts :: "toast list"
  extractCalls :: "string list"

text \<open>The catch block of the loop body.\<close>

definition failJob :: "VideoFile \<Rightarrow> thrown \<Rightarrow> 'p page \<Rightarrow> 'p page" where
  "failJob f e pg =
     (let errorMessage = (case e of Error m \<Rightarrow> m | NonError \<Rightarrow> msg_process_failed)
      in pg\<lparr>store := updateFileInfo (fid f) (\<lambda>g. g\<lparr>error := Some errorMessage\<rparr>)
                        (updateFileStatus (fid f) Failed (store pg)),
            toasts := toasts pg @ [ToastJobFailed (name f) errorMessage]\<rparr>)"

text \<open>The try block of the loop body, for a job that passed both pending checks.\<close>

definition processJob :: "'p processor_api \<Rightarrow> VideoFile \<Rightarrow> 'p page \<Rightarrow> 'p page" where
  "processJob api f pg =
     (let pg1 = pg\<lparr>store := updateFileProgress (fid f) 0 Processing_progress
                          (updateFileStatus (fid f) Processing (store pg))\<rparr>
      in if \<not> isLoaded api (processor pg1) then failJob f (Error msg_engine_lost) pg1
         else
           (case extractAudio_of api (fileObj f) ''mp3'' ''high'' (processor pg1) of
              (res, reports, p') \<Rightarrow>
                (let pg2 = pg1\<lparr>processor := p',
                               extractCalls := extractCalls pg1 @ [fid f],
                               store := fold (\<lambda>v. updateFileProgress (fid f) v Processing_progress)
                                          reports (store pg1)\<rparr>
                 in case res of
                      Inl e \<Rightarrow> failJob f e pg2
                    | Inr blob \<Rightarrow>
                        pg2\<lparr>store := updateFileInfo (fid f)
                                       (completedInfo (createObjectURL api blob) blob)
                                       (store pg2),
                            processedFiles := processedFiles pg2 @
                              [\<lparr> originalFileName = name f,
                                 historyUrl = createObjectURL api blob,
                                 historyBlob = blob, historyFormat = ''mp3'',
                                 historyQuality = ''high'',
                                 historySize = length (blob_data blob) \<rparr>]\<rparr>)))"

text \<open>
  The store updates of a job that is started and then fails the readiness check of the
  loop body.
\<close>

definition loseJob :: "VideoFile \<Rightarrow> AppState \<Rightarrow> AppState" where
  "loseJob f state =
     updateFileInfo (fid f) (\<lambda>g. g\<lparr>error := Some msg_engine_lost\<rparr>)
       (updateFileStatus (fid f) Failed
         (updateFileProgress (fid f) 0 Processing_progress
           (updateFileStatus (fid f) Processing state)))"

text \<open>
  The two checks before a job is started, both on the rendered snapshot: the job is
  pending, and the first descriptor of the snapshot with its id is pending.
\<close>

definition dispatchable :: "VideoFile list \<Rightarrow> VideoFile \<Rightarrow> bool" where
  "dispatchable snapshot f =
     (status f = Pending \<and>
      (case find (\<lambda>g. fid g = fid f) snapshot of
         None \<Rightarrow> False
       | Some currentFileState \<Rightarrow> status currentFileState = Pending))"

text \<open>The loop over the snapshot, from the descriptors still to visit.\<close>

fun dispatchLoop :: "'p processor_api \<Rightarrow> VideoFile list \<Rightarrow> VideoFile list \<Rightarrow> 'p page \<Rightarrow> 'p page" where
  "dispatchLoop api snapshot [] pg = pg"
| "dispatchLoop api snapshot (f # rest) pg =
     (if dispatchable snapshot f then dispatchLoop api snapshot rest (processJob api f pg)
      else dispatchLoop api snapshot rest pg)"

text \<open>
  \<open>startProcessing\<close> on the \<open>files\<close>, \<open>isProcessing\<close> and \<open>ffmpegLoaded\<close> of the render
  it was created in.
\<close>

definition startProcessing ::
  "'p processor_api \<Rightarrow> VideoFile list \<Rightarrow> bool \<Rightarrow> bool \<Rightarrow> 'p page \<Rightarrow> run_signal \<times> 'p page" where
  "startProcessing api fileList isProcessing loadedFlag pg =
     (if isProcessing \<or> length fileList = 0 then (Skipped, pg)
      else if filter (\<lambda>f. status f = Pending) fileList = [] then (Skipped, pg)
      else if \<not> loadedFlag \<or> \<not> isLoaded api (processor pg) then
        (NotReady, pg\<lparr>toasts := toasts pg @ [ToastNotReady]\<rparr>)
      else
        (let pg1 = dispatchLoop api fileList fileList
                     (pg\<lparr>isProcessingState := True, processedFiles := []\<rparr>);
             pg2 = pg1\<lparr>isProcessingState := False,
                       refs := (refs pg1)\<lparr>hasStartedProcessingRef := False\<rparr>,
                       store := fold addToHistory (processedFiles pg1) (store pg1)\<rparr>;
             completedFiles = filter (\<lambda>f. status f = Completed) (files (store pg2));
             errorFiles = filter (\<lambda>f. status f = Failed) (files (store pg2))
         in if length completedFiles > 0 then
              (Advance,
               pg2\<lparr>toasts := toasts pg2 @
                 [if length errorFiles > 0
                  then ToastSummary (length completedFiles) (length errorFiles)
                  else ToastAllDone (length completedFiles)]\<rparr>)
            else (Failure, pg2\<lparr>toasts := toasts pg2 @ [ToastNoneSucceeded]\<rparr>)))"

subsection \<open>The page as a mounted component\<close>

text \<open>
  The state a job is in while the loop awaits its \<open>extractAudio\<close>: set to processing,
  with progress 0 requested.
\<close>

definition beginJob :: "VideoFile \<Rightarrow> 'p page \<Rightarrow> 'p page" where
  "beginJob f pg =
     pg\<lparr>store := updateFileProgress (fid f) 0 Processing_progress
                     (updateFileStatus (fid f) Processing (store pg))\<rparr>"





section \<open>Retry (Processing.tsx, retryProcessing)\<close>

text \<open>
  The reset that \<open>retryProcessing\<close> applies to one descriptor of the rendered snapshot:
  nothing unless its status is \<open>error\<close>, otherwise the three store updates in the
  source's order.
\<close>

definition resetFailed :: "VideoFile \<Rightarrow> AppState \<Rightarrow> AppState" where
  "resetFailed f state =
     (if status f = Failed then
        updateFileInfo (fid f) (\<lambda>g. g\<lparr>error := None\<rparr>)
          (updateFileProgress (fid f) 0 Processing_progress
            (updateFileStatus (fid f) Pending state))
      else state)"

text \<open>
  \<open>retryProcessing\<close> up to the point where it schedules \<open>startProcessing\<close>:
  \<open>engineReady\<close> is \<open>ffmpegProcessor.isLoaded()\<close>, \<open>snapshot\<close> the \<open>files\<close> of the
  render the handler belongs to. The result says whether a run was scheduled.
\<close>

definition retryProcessing :: "bool \<Rightarrow> VideoFile list \<Rightarrow> AppState \<Rightarrow> bool \<times> AppState" where
  "retryProcessing engineReady snapshot state =
     (if \<not> ffmpegLoaded state \<or> \<not> engineReady then (False, state)
      else (True, fold resetFailed snapshot state))"

section \<open>Example inputs\<close>

definition clip_a :: File where
  "clip_a = \<lparr> file_name = ''a.mp4'', file_type = ''video/mp4'', file_content = [1, 2, 3] \<rparr>"

definition clip_b :: File where
  "clip_b = \<lparr> file_name = ''b.mp4'', file_type = ''video/mp4'', file_content = [4, 5] \<rparr>"

definition job_a :: VideoFile where
  "job_a = newVideoFile ''k3x9q'' 0 clip_a"

definition job_b :: VideoFile where
  "job_b = newVideoFile ''r7'' 1 clip_b"

definition registry_a :: AppState where
  "registry_a = \<lparr> files = [job_a], history = [], ffmpegLoaded = True \<rparr>"

text \<open>A job that failed at half of its processing.\<close>

definition failed_job :: VideoFile where
  "failed_job = job_a
     \<lparr> processingProgress := 50, status := Failed, error := Some msg_generic \<rparr>"

text \<open>The refs after the effect has started a run on \<open>registry_a\<close>.\<close>

definition guard_a :: guard where
  "guard_a = \<lparr> hasStartedProcessingRef = True, filesHashRef = ''k3x9q'' \<rparr>"

definition registry_ab :: AppState where
  "registry_ab = \<lparr> files = [job_a, job_b], history = [], ffmpegLoaded = True \<rparr>"

text \<open>
  An engine wrapper that is a single flag, and whose every extraction fails and leaves
  the flag down.
\<close>

definition dying_api :: "bool processor_api" where
  "dying_api = \<lparr> isLoaded = (\<lambda>p. p),
                  extractAudio_of = (\<lambda>f format quality p. (Inl (Error msg_generic), [10], False)),
                  createObjectURL = (\<lambda>b. ''blob:1'') \<rparr>"

definition page_ab :: "bool page" where
  "page_ab = \<lparr> store = registry_ab, processor = True, refs = guard_a,
               isProcessingState = False, processedFiles = [], toasts = [],
               extractCalls = [] \<rparr>"





text \<open>
  An engine in memory: a virtual file system and a flag for the loaded core. Its codec
  command writes three bytes to the output file when the input file exists.
\<close>

record mem_engine =
  vfs :: "(string \<times> bytes) list"
  core :: bool

definition mem_api :: "mem_engine ffmpeg_api" where
  "mem_api =
     \<lparr> new_FFmpeg = \<lparr> vfs = [], core = False \<rparr>,
       ffmpeg_load = (\<lambda>coreURL wasmURL e. (Inr (), e\<lparr>core := True\<rparr>)),
       ffmpeg_exec = (\<lambda>args e.
         if args = [''-version''] then (Inr (), e)
         else (case map_of (vfs e) (hd (tl args)) of
                 None \<Rightarrow> (Inl (Error (utf16 ''No such file or directory'')), e)
               | Some d \<Rightarrow> (Inr (), e\<lparr>vfs := (last args, [0x49, 0x44, 0x33]) # vfs e\<rparr>))),
       ffmpeg_listDir = (\<lambda>path e. (Inr (map fst (vfs e)), e)),
       ffmpeg_writeFile = (\<lambda>path d e.
         (Inr (), e\<lparr>vfs := (path, d) # filter (\<lambda>kv. fst kv \<noteq> path) (vfs e)\<rparr>)),
       ffmpeg_readFile = (\<lambda>path e.
         case map_of (vfs e) path of
           None \<Rightarrow> (Inl (Error (utf16 ''No such file or directory'')), e)
         | Some d \<Rightarrow> (Inr d, e)),
       ffmpeg_deleteFile = (\<lambda>path e.
         case map_of (vfs e) path of
           None \<Rightarrow> (Inl (Error (utf16 ''No such file or directory'')), e)
         | Some d \<Rightarrow> (Inr (), e\<lparr>vfs := filter (\<lambda>kv. fst kv \<noteq> path) (vfs e)\<rparr>)) \<rparr>"

text \<open>The same engine when its core cannot be fetched, and a network that is down.\<close>

definition offline_api :: "mem_engine ffmpeg_api" where
  "offline_api =
     mem_api\<lparr>ffmpeg_load := (\<lambda>coreURL wasmURL e. (Inl (Error (utf16 ''failed to fetch'')), e))\<rparr>"

definition offline_net :: network where
  "offline_net =
     \<lparr> fetch_head = (\<lambda>url i. Inl (Error (utf16 ''Failed to fetch''))),
       toBlobURL = (\<lambda>url ty i. Inl (Error (utf16 ''Failed to fetch''))) \<rparr>"

definition online_net :: network where
  "online_net =
     \<lparr> fetch_head = (\<lambda>url i. Inr (Response True (utf16 ''200: OK''))),
       toBlobURL = (\<lambda>url ty i. Inr (''blob:'' @ url)) \<rparr>"

text \<open>A loaded wrapper around the engine in memory.\<close>

definition ready_processor :: "mem_engine FFmpegProcessor" where
  "ready_processor = \<lparr> ffmpeg = Some \<lparr> vfs = [], core = True \<rparr>, loaded = True \<rparr>"

text \<open>
  Files for the checks of \<open>extractAudio\<close>: one byte over the size limit; a supported
  type with an unknown extension; no type and a supported extension in capitals; neither.
  And the engine in memory when its writes are cut short after one byte.
\<close>

definition big_clip :: File where
  "big_clip = \<lparr> file_name = ''big.mp4'', file_type = ''video/mp4'',
                file_content = replicate 104857601 0 \<rparr>"

definition short_write_api :: "mem_engine ffmpeg_api" where
  "short_write_api =
     mem_api\<lparr>ffmpeg_writeFile := (\<lambda>path d e. ffmpeg_writeFile mem_api path (take 1 d) e)\<rparr>"

definition typed_only :: File where
  "typed_only = \<lparr> file_name = ''recording.bin'', file_type = ''video/mp4'', file_content = [1, 2, 3] \<rparr>"

definition ext_only :: File where
  "ext_only = \<lparr> file_name = ''Holiday.MKV'', file_type = '''', file_content = [1, 2, 3] \<rparr>"

definition notes_txt :: File where
  "notes_txt = \<lparr> file_name = ''notes.txt'', file_type = ''text/plain'', file_content = [1, 2, 3] \<rparr>"

text \<open>
  A schedule: the timer fires at 0 with \<open>Math.random() = 0.5\<close> (the sum is 1.5), the
  engine reports the fraction 31/32 (times 100 is 96.875), the timer fires again (the
  sum is 98.5) and the engine reports the stale fraction 0.5. All four values are exact
  in doubles.
\<close>

definition schedule_a :: "exec_event list" where
  "schedule_a = [TimerTick (3 / 2), EngineProgress (775 / 8), TimerTick (197 / 2), EngineProgress 50]"

section \<open>Properties of the registry and the parameter table\<close>

lemma uniqueFiles_names_fresh:
  "set (map file_name (uniqueFiles S fs)) \<inter> S = {}"
  by (induction fs arbitrary: S) auto

lemma uniqueFiles_distinct: "distinct (map file_name (uniqueFiles S fs))"
proof (induction fs arbitrary: S)
  case Nil
  show ?case by simp
next
  case (Cons f fs)
  have "file_name f \<notin> set (map file_name (uniqueFiles (insert (file_name f) S) fs))"
    using uniqueFiles_names_fresh [of "insert (file_name f) S" fs] by auto
  with Cons show ?case by simp
qed

lemma added_initial:
  "v \<in> set (map (\<lambda>(i, f). newVideoFile (rnd i) now f) (enumerate n kept)) \<Longrightarrow>
   status v = Pending \<and> uploadProgress v = 0 \<and> processingProgress v = 0 \<and> fileObj v \<in> set kept"
  by (auto simp: newVideoFile_def in_set_enumerate_eq)

lemma added_files:
  "map fileObj (map (\<lambda>(i, f). newVideoFile (rnd i) now f) (enumerate n kept)) = kept"
  by (induction kept arbitrary: n) (auto simp: newVideoFile_def)

lemma filter_upt_Suc:
  "map f (filter P [0..<Suc n]) =
     (if P 0 then [f 0] else []) @ map (f \<circ> Suc) (filter (P \<circ> Suc) [0..<n])"
proof -
  have "[0..<Suc n] = 0 # map Suc [0..<n]"
    by (simp add: upt_conv_Cons map_Suc_upt del: upt_Suc)
  then show ?thesis by (simp add: filter_map del: upt_Suc)
qed

text \<open>
  The kept files are the input files at the positions whose name is neither in the
  set the filter starts from nor the name of an earlier input file.
\<close>

lemma uniqueFiles_positions:
  "uniqueFiles S fs =
     map (\<lambda>i. fs ! i)
       (filter (\<lambda>i. file_name (fs ! i) \<notin> S \<union> set (map file_name (take i fs))) [0..<length fs])"
proof (induction fs arbitrary: S)
  case Nil
  show ?case by simp
next
  case (Cons f fs)
  show ?case
  proof (cases "file_name f \<in> S")
    case True
    have "filter (\<lambda>i. file_name (fs ! i) \<notin> S \<union> set (map file_name (take i fs))) [0..<length fs]
        = filter (\<lambda>i. file_name (fs ! i) \<notin> S \<union> set (map file_name (f # take i fs))) [0..<length fs]"
      using True by (intro filter_cong refl) auto
    with True show ?thesis
      by (simp add: filter_upt_Suc Cons.IH comp_def conj_ac del: upt_Suc)
  next
    case False
    have "filter (\<lambda>i. file_name (fs ! i) \<notin> insert (file_name f) S \<union> set (map file_name (take i fs))) [0..<length fs]
        = filter (\<lambda>i. file_name (fs ! i) \<notin> S \<union> set (map file_name (f # take i fs))) [0..<length fs]"
      by (intro filter_cong refl) auto
    with False show ?thesis
      by (simp add: filter_upt_Suc Cons.IH comp_def conj_ac del: upt_Suc)
  qed
qed

text \<open>
  C8. For each of the nine (format, quality) pairs, \<open>getQualityParams\<close> returns exactly
  the arguments of the parameter table: mp3 selects the codec libmp3lame with a constant
  bitrate of 320k, 192k or 128k; wav selects pcm_s16le with a sample rate of 48000, 44100
  or 22050 Hz; aac selects the codec aac with a constant bitrate of 256k, 128k or 96k.
\<close>

theorem getQualityParams_table:
  "getQualityParams ''mp3'' ''high'' = [''-acodec'', ''libmp3lame'', ''-b:a'', ''320k'']
 \<and> getQualityParams ''mp3'' ''medium'' = [''-acodec'', ''libmp3lame'', ''-b:a'', ''192k'']
 \<and> getQualityParams ''mp3'' ''low'' = [''-acodec'', ''libmp3lame'', ''-b:a'', ''128k'']
 \<and> getQualityParams ''wav'' ''high'' = [''-acodec'', ''pcm_s16le'', ''-ar'', ''48000'']
 \<and> getQualityParams ''wav'' ''medium'' = [''-acodec'', ''pcm_s16le'', ''-ar'', ''44100'']
 \<and> getQualityParams ''wav'' ''low'' = [''-acodec'', ''pcm_s16le'', ''-ar'', ''22050'']
 \<and> getQualityParams ''aac'' ''high'' = [''-acodec'', ''aac'', ''-b:a'', ''256k'']
 \<and> getQualityParams ''aac'' ''medium'' = [''-acodec'', ''aac'', ''-b:a'', ''128k'']
 \<and> getQualityParams ''aac'' ''low'' = [''-acodec'', ''aac'', ''-b:a'', ''96k'']"
  by (simp add: getQualityParams_def)

text \<open>
  C10. \<open>addFiles\<close> appends to the registry one descriptor for each input file whose name
  is neither the name of a registry file nor the name of an earlier file of the same
  call, in input order, and for no other input file; every appended descriptor has
  status pending, upload progress 0 and processing progress 0.
\<close>

theorem addFiles_skips_duplicate_names:
  "\<exists>added.
     files (addFiles rnd now newFiles state) = files state @ added
   \<and> map fileObj added =
       map (\<lambda>i. newFiles ! i)
         (filter (\<lambda>i. file_name (newFiles ! i)
                    \<notin> set (map name (files state)) \<union> set (map file_name (take i newFiles)))
            [0..<length newFiles])
   \<and> (\<forall>v \<in> set added. status v = Pending \<and> uploadProgress v = 0 \<and> processingProgress v = 0)"
proof -
  let ?kept = "uniqueFiles (set (map name (files state))) newFiles"
  let ?added = "map (\<lambda>(i, f). newVideoFile (rnd i) now f) (enumerate 0 ?kept)"
  have 1: "files (addFiles rnd now newFiles state) = files state @ ?added"
    by (simp add: addFiles_def)
  have 2: "map fileObj ?added = ?kept"
    by (rule added_files)
  have 3: "\<forall>v \<in> set ?added. status v = Pending \<and> uploadProgress v = 0 \<and> processingProgress v = 0"
    using added_initial [of _ rnd now 0 ?kept] by blast
  show ?thesis
    using 1 2 3 unfolding uniqueFiles_positions [symmetric] by blast
qed

theorem addFiles_skips_duplicate_names_witness:
  "map name (files (addFiles (\<lambda>i. ''r7'') 1 [clip_a, clip_b, clip_b] registry_a)) = [''a.mp4'', ''b.mp4'']
 \<and> (\<exists>added.
     files (addFiles (\<lambda>i. ''r7'') 1 [clip_a, clip_b, clip_b] registry_a) = files registry_a @ added
   \<and> map fileObj added = [clip_b]
   \<and> (\<forall>v \<in> set added. status v = Pending \<and> uploadProgress v = 0 \<and> processingProgress v = 0))"
  using addFiles_skips_duplicate_names [of "\<lambda>i. ''r7''" 1 "[clip_a, clip_b, clip_b]" registry_a]
  by (simp add: addFiles_def registry_a_def job_a_def clip_a_def clip_b_def newVideoFile_def
      enumerate_eq_zip)

text \<open>
  C1. Retrying a job whose status is error sets its status to pending and clears its
  error message, but its processing progress is not reset: \<open>retryProcessing\<close> asks the
  store for progress 0, and \<open>updateFileProgress\<close> keeps the maximum of the stored and the
  requested value. A job that failed at progress 50 is still at 50 after the retry.
\<close>

theorem retryProcessing_keeps_progress:
  "fst (retryProcessing True [failed_job] \<lparr> files = [failed_job], history = [], ffmpegLoaded = True \<rparr>) = True
 \<and> map (\<lambda>f. (status f, error f, processingProgress f))
      (files (snd (retryProcessing True [failed_job] \<lparr> files = [failed_job], history = [], ffmpegLoaded = True \<rparr>)))
     = [(Pending, None, 50)]"
  by (simp add: retryProcessing_def resetFailed_def updateFileInfo_def updateFileProgress_def
      updateFileStatus_def set_progress_def failed_job_def job_a_def newVideoFile_def)

theorem retryProcessing_keeps_progress_witness:
  "map processingProgress
     (files (snd (retryProcessing True [failed_job] \<lparr> files = [failed_job], history = [], ffmpegLoaded = True \<rparr>)))
     = [50]"
  using retryProcessing_keeps_progress by (auto simp: map_eq_Cons_conv)

section \<open>Properties of the batch orchestrator\<close>










lemma processJob_beginJob:
  "processJob api f pg =
     (if \<not> isLoaded api (processor pg) then failJob f (Error msg_engine_lost) (beginJob f pg)
      else
        (case extractAudio_of api (fileObj f) ''mp3'' ''high'' (processor pg) of
           (res, reports, p') \<Rightarrow>
             (let pg2 = (beginJob f pg)\<lparr>processor := p',
                            extractCalls := extractCalls pg @ [fid f],
                            store := fold (\<lambda>v. updateFileProgress (fid f) v Processing_progress)
                                       reports (store (beginJob f pg))\<rparr>
              in case res of
                   Inl e \<Rightarrow> failJob f e pg2
                 | Inr blob \<Rightarrow>
                     pg2\<lparr>store := updateFileInfo (fid f)
                                    (completedInfo (createObjectURL api blob) blob)
                                    (store pg2),
                         processedFiles := processedFiles pg2 @
                           [\<lparr> originalFileName = name f,
                              historyUrl = createObjectURL api blob,
                              historyBlob = blob, historyFormat = ''mp3'',
                              historyQuality = ''high'',
                              historySize = length (blob_data blob) \<rparr>]\<rparr>)))"
  by (simp add: processJob_def beginJob_def Let_def)

lemma failJob_flag: "isProcessingState (failJob f e pg) = isProcessingState pg \<and> refs (failJob f e pg) = refs pg"
  by (simp add: failJob_def Let_def)














lemma processJob_lost:
  "\<not> isLoaded api (processor pg) \<Longrightarrow>
   processJob api f pg =
     pg\<lparr>store := loseJob f (store pg),
        toasts := toasts pg @ [ToastJobFailed (name f) msg_engine_lost]\<rparr>"
  by (simp add: processJob_def failJob_def loseJob_def Let_def)

lemma dispatchLoop_lost:
  "\<not> isLoaded api (processor pg) \<Longrightarrow>
   dispatchLoop api snapshot rest pg =
     pg\<lparr>store := fold loseJob (filter (dispatchable snapshot) rest) (store pg),
        toasts := toasts pg @
          map (\<lambda>f. ToastJobFailed (name f) msg_engine_lost) (filter (dispatchable snapshot) rest)\<rparr>"
proof (induction rest arbitrary: pg)
  case Nil
  show ?case by simp
next
  case (Cons f rest)
  show ?case
  proof (cases "dispatchable snapshot f")
    case True
    have nl: "\<not> isLoaded api (processor (processJob api f pg))"
      using Cons.prems by (simp add: processJob_lost)
    show ?thesis
      using True Cons.IH [OF nl] Cons.prems by (simp add: processJob_lost)
  next
    case False
    with Cons show ?thesis by simp
  qed
qed

lemma loseJob_files:
  "files (loseJob f state) =
     map (\<lambda>g. if fid g = fid f
               then g\<lparr>status := Failed, processingProgress := max (processingProgress g) 0,
                         error := Some msg_engine_lost\<rparr>
               else g) (files state)"
  by (simp add: loseJob_def updateFileInfo_def updateFileStatus_def updateFileProgress_def
      set_progress_def comp_def)

lemma fold_loseJob_failed:
  "g \<in> set (files (fold loseJob js state)) \<Longrightarrow>
   (fid g \<in> fid ` set js \<longrightarrow> status g = Failed \<and> error g = Some msg_engine_lost)
   \<and> (fid g \<notin> fid ` set js \<longrightarrow> g \<in> set (files state))"
proof (induction js arbitrary: state g rule: rev_induct)
  case Nil
  then show ?case by simp
next
  case (snoc j js)
  from snoc.prems obtain g0 where g0: "g0 \<in> set (files (fold loseJob js state))"
    and g: "g = (if fid g0 = fid j
               then g0\<lparr>status := Failed, processingProgress := max (processingProgress g0) 0,
                         error := Some msg_engine_lost\<rparr>
               else g0)"
    by (auto simp: loseJob_files)
  from snoc.IH [OF g0] g show ?case
    by (auto split: if_splits)
qed

text \<open>
  C7. When the engine is not loaded as the loop is about to dispatch a job, nothing from
  there on reaches the pipeline: the loop makes no call to \<open>extractAudio\<close>, leaves the
  engine wrapper as it is and collects no result; every job it visits that passes the
  pending checks is left with status error and the engine-failure message, and each of
  them is reported by an error toast.
\<close>

theorem engine_lost_fails_remaining_jobs:
  assumes "\<not> isLoaded api (processor pg)"
  shows "extractCalls (dispatchLoop api snapshot rest pg) = extractCalls pg
       \<and> processor (dispatchLoop api snapshot rest pg) = processor pg
       \<and> processedFiles (dispatchLoop api snapshot rest pg) = processedFiles pg
       \<and> toasts (dispatchLoop api snapshot rest pg) =
           toasts pg @ map (\<lambda>f. ToastJobFailed (name f) msg_engine_lost)
                         (filter (dispatchable snapshot) rest)
       \<and> (\<forall>f \<in> set rest. dispatchable snapshot f \<longrightarrow>
            (\<forall>g \<in> set (files (store (dispatchLoop api snapshot rest pg))).
               fid g = fid f \<longrightarrow> status g = Failed \<and> error g = Some msg_engine_lost))"
proof -
  have "status g = Failed \<and> error g = Some msg_engine_lost"
    if "f \<in> set rest" "dispatchable snapshot f"
      "g \<in> set (files (store (dispatchLoop api snapshot rest pg)))" "fid g = fid f" for f g
  proof -
    have "g \<in> set (files (fold loseJob (filter (dispatchable snapshot) rest) (store pg)))"
      using that(3) assms by (simp add: dispatchLoop_lost)
    moreover have "fid g \<in> fid ` set (filter (dispatchable snapshot) rest)"
      using that by auto
    ultimately show ?thesis using fold_loseJob_failed by blast
  qed
  then show ?thesis
    using assms by (simp add: dispatchLoop_lost)
qed

theorem engine_lost_fails_remaining_jobs_witness:
  "\<not> isLoaded dying_api (processor (processJob dying_api job_a page_ab))
 \<and> extractCalls (dispatchLoop dying_api [job_a, job_b] [job_a, job_b] page_ab) = [''k3x9q'']
 \<and> map status (files (store (dispatchLoop dying_api [job_a, job_b] [job_a, job_b] page_ab)))
     = [Failed, Failed]
 \<and> toasts (dispatchLoop dying_api [job_a, job_b] [job_a, job_b] page_ab)
     = [ToastJobFailed ''a.mp4'' msg_generic, ToastJobFailed ''b.mp4'' msg_engine_lost]
 \<and> fst (startProcessing dying_api [job_a, job_b] False True page_ab) = Failure"
proof -
  have lost: "\<not> isLoaded dying_api (processor (processJob dying_api job_a page_ab))"
    by (simp add: processJob_def dying_api_def page_ab_def failJob_def Let_def)
  show ?thesis
    using lost engine_lost_fails_remaining_jobs [OF lost, of "[job_a, job_b]" "[job_b]"]
    by (simp add: startProcessing_def dispatchable_def processJob_def dying_api_def page_ab_def failJob_def Let_def job_a_def
        job_b_def newVideoFile_def registry_ab_def clip_a_def clip_b_def updateFileInfo_def
        updateFileStatus_def updateFileProgress_def set_progress_def)
qed

section \<open>Properties of the engine loader\<close>

lemma trySource_fails:
  assumes "source_fails api net baseURL"
  shows "\<exists>e p1. trySource api net baseURL p = (Inl e, p1\<lparr>ffmpeg := None, loaded := False\<rparr>)"
proof -
  obtain r1 p1 where d: "directInit api baseURL p = (r1, p1)" by (cases "directInit api baseURL p")
  obtain r2 p2 where s: "stagedInit api net baseURL p1 = (r2, p2)"
    by (cases "stagedInit api net baseURL p1")
  from assms d have "isl r1" unfolding source_fails_def by (metis fst_conv)
  moreover from assms s have "isl r2" unfolding source_fails_def by (metis fst_conv)
  ultimately show ?thesis
    using d s by (auto simp: trySource_def isl_def)
qed

lemma loadSources_all_fail:
  assumes "\<forall>baseURL \<in> set sources. source_fails api net baseURL"
  shows "\<exists>q. loadSources api net sources p = (Inl (Error msg_load_failed), q\<lparr>ffmpeg := None, loaded := False\<rparr>)"
  using assms
proof (induction sources arbitrary: p)
  case Nil
  show ?case by auto
next
  case (Cons b rest)
  then have "source_fails api net b" by simp
  from trySource_fails [OF this, of p] obtain e p1 where
    t: "trySource api net b p = (Inl e, p1\<lparr>ffmpeg := None, loaded := False\<rparr>)" by blast
  from Cons have "\<forall>baseURL \<in> set rest. source_fails api net baseURL" by simp
  from Cons.IH [OF this] t show ?case by simp
qed

text \<open>
  C4. When the engine is not ready and every source of the list fails both direct and
  staged initialisation, \<open>load\<close> throws one error, the one with the load-failure
  message, and leaves the wrapper not loaded and without an engine instance, so that a
  later call does not return early but goes through its sources again with a fresh
  instance.
\<close>

theorem load_all_sources_fail:
  assumes "\<not> engine_ready p"
    and "\<forall>baseURL \<in> set sources. source_fails api net baseURL"
  shows "fst (loadFrom sources api net p) = Inl (Error msg_load_failed)
       \<and> loaded (snd (loadFrom sources api net p)) = False
       \<and> ffmpeg (snd (loadFrom sources api net p)) = None
       \<and> loadFrom sources' api' net' (snd (loadFrom sources api net p))
           = loadSources api' net' sources'
               ((snd (loadFrom sources api net p))\<lparr>ffmpeg := Some (new_FFmpeg api')\<rparr>)"
proof -
  from loadSources_all_fail [OF assms(2), of "p\<lparr>ffmpeg := Some (new_FFmpeg api)\<rparr>"]
  obtain q where "loadSources api net sources (p\<lparr>ffmpeg := Some (new_FFmpeg api)\<rparr>)
     = (Inl (Error msg_load_failed), q\<lparr>ffmpeg := None, loaded := False\<rparr>)" by blast
  with assms(1) show ?thesis
    by (simp add: loadFrom_def engine_ready_def)
qed

lemma loadWithRetry_offline: "loadWithRetry offline_net url ty = Inl (Error (utf16 ''Failed to fetch''))"
  by (simp add: loadWithRetry_def offline_net_def numeral_3_eq_3)

lemma offline_fails: "source_fails offline_api offline_net b"
  unfolding source_fails_def
proof (intro allI conjI)
  fix p :: "mem_engine FFmpegProcessor"
  show "isl (fst (directInit offline_api b p))"
    by (cases "ffmpeg p") (simp_all add: directInit_def instance_load_def offline_api_def)
  show "isl (fst (stagedInit offline_api offline_net b p))"
    by (simp add: stagedInit_def loadWithRetry_offline)
qed

theorem load_all_sources_fail_witness:
  "load offline_api offline_net initial_processor = (Inl (Error msg_load_failed), initial_processor)
 \<and> load mem_api online_net (snd (load offline_api offline_net initial_processor))
     = (Inr (), \<lparr> ffmpeg = Some \<lparr> vfs = [], core = True \<rparr>, loaded = True \<rparr>)"
proof -
  have nr: "\<not> engine_ready (initial_processor :: mem_engine FFmpegProcessor)"
    by (simp add: engine_ready_def initial_processor_def)
  have sf: "\<forall>baseURL \<in> set cdnSources. source_fails offline_api offline_net baseURL"
    by (simp add: offline_fails)
  note th = load_all_sources_fail [OF nr sf, where sources' = cdnSources and api' = mem_api
      and net' = online_net]
  have 1: "load offline_api offline_net initial_processor = (Inl (Error msg_load_failed), initial_processor)"
    using th by (simp add: load_def prod_eq_iff initial_processor_def)
  have 2: "load mem_api online_net initial_processor
     = (Inr (), \<lparr> ffmpeg = Some \<lparr> vfs = [], core = True \<rparr>, loaded = True \<rparr>)"
    by (simp add: load_def loadFrom_def cdnSources_def trySource_def directInit_def
        instance_load_def validateFFmpeg_def mem_api_def initial_processor_def)
  from 1 2 show ?thesis by simp
qed

section \<open>Properties of the extraction pipeline\<close>

lemma classify_too_large: "classify (Error msg_too_large) = Error msg_generic"
  by (simp add: classify_def msg_too_large_def toLowerCase_def lower_unit_def utf16_def
      msg_unsupported_key_def Let_def)

lemma classify_unsupported: "classify (Error msg_unsupported) = Error msg_unsupported"
  by (simp add: classify_def msg_unsupported_def msg_unsupported_prefix_def supportedExtensions_def
      toLowerCase_def lower_unit_def utf16_def msg_unsupported_key_def Let_def)

lemma classify_write_verify: "classify (Error msg_write_verify) = Error msg_generic"
  by (simp add: classify_def msg_write_verify_def toLowerCase_def lower_unit_def utf16_def
      msg_unsupported_key_def Let_def)

lemma do_listDir_trace: "snd (snd (do_listDir api path c)) = snd c @ [ListDir path]"
  by (simp add: do_listDir_def split: prod.splits)

lemma do_deleteFile_trace: "snd (snd (do_deleteFile api path c)) = snd c @ [DeleteFile path]"
  by (simp add: do_deleteFile_def split: prod.splits)

lemma do_writeFile_trace: "snd (snd (do_writeFile api path d c)) = snd c @ [WriteFile path d]"
  by (simp add: do_writeFile_def split: prod.splits)

lemma do_readFile_trace: "snd (snd (do_readFile api path c)) = snd c @ [ReadFile path]"
  by (simp add: do_readFile_def split: prod.splits)

lemma do_exec_trace: "snd (snd (do_exec api command c)) = snd c @ [Exec command]"
  by (simp add: do_exec_def split: prod.splits)

lemma extract_catch_result:
  "fst (extract_catch api i out err c) = classify err"
  "snd (snd (extract_catch api i out err c)) = snd c @ [ListDir ''/'', DeleteFile i, DeleteFile out]"
  by (simp_all add: extract_catch_def Let_def do_listDir_trace do_deleteFile_trace)

lemma extract_try_rejected:
  "preflight f = Some e \<Longrightarrow>
   extract_try api i out schedule onProgress f format quality c = (Inl e, [], c)"
  by (simp add: extract_try_def)

lemma extractAudio_rejected:
  assumes "engine_ready p" "preflight f = Some e"
  shows "\<exists>p'. extractAudio api uid schedule onProgress f format quality p =
     (Inl (classify e), [],
      [ListDir ''/'', ListDir ''/'', DeleteFile (inputName uid f), DeleteFile (outputName uid format)],
      p')"
proof -
  from assms(1) obtain en where en: "ffmpeg p = Some en" and l: "loaded p"
    by (auto simp: engine_ready_def)
  let ?c0 = "snd (do_listDir api ''/'' (en, []))"
  let ?r = "extract_catch api (inputName uid f) (outputName uid format) e ?c0"
  have "extractAudio api uid schedule onProgress f format quality p =
     (Inl (fst ?r), [], snd (snd ?r), p\<lparr>ffmpeg := Some (fst (snd ?r))\<rparr>)"
    using en l assms(2)
    by (simp add: extractAudio_def Let_def extract_try_rejected split: prod.splits)
  then show ?thesis
    by (simp add: extract_catch_result do_listDir_trace)
qed

lemma extractAudio_not_ready:
  "\<not> engine_ready p \<Longrightarrow>
   extractAudio api uid schedule onProgress f format quality p = (Inl (Error msg_not_loaded), [], [], p)"
  by (auto simp: extractAudio_def engine_ready_def split: option.splits)

text \<open>
  C5. For a file larger than 100 MB, \<open>extractAudio\<close> throws and reports no progress,
  and it never writes to the engine's file system or runs a command. When the engine is
  ready the calls on it are exactly four: the directory listing at the head of the
  function, the listing of the catch block, and the catch block's two deletions of the
  temporary names; when it is not ready there is none.
\<close>

theorem oversize_rejected_without_write:
  assumes "file_size f > sizeLimit"
  shows "\<exists>err p'. extractAudio api uid schedule onProgress f format quality p =
     (Inl err, [],
      (if engine_ready p
       then [ListDir ''/'', ListDir ''/'', DeleteFile (inputName uid f),
             DeleteFile (outputName uid format)]
       else []),
      p')"
proof (cases "engine_ready p")
  case True
  from assms have "preflight f = Some (Error msg_too_large)" by (simp add: preflight_def)
  from extractAudio_rejected [OF True this] True show ?thesis by fastforce
next
  case False
  then show ?thesis by (simp add: extractAudio_not_ready)
qed

lemma big_clip_size: "file_size big_clip = 104857601"
  by (simp add: file_size_def big_clip_def)

text \<open>
  C5, as stated: the rejection of an oversized file does not come before any engine
  interaction. On a ready engine the call lists the directory before the size check,
  and lists it again and asks for two deletions afterwards.
\<close>

theorem oversize_engine_calls_counterexample:
  "fst (snd (snd (extractAudio mem_api ''1700000000000_ab12cd'' [] True big_clip ''mp3'' ''high''
      ready_processor)))
   = [ListDir ''/'', ListDir ''/'', DeleteFile ''input_1700000000000_ab12cd.mp4'',
      DeleteFile ''output_1700000000000_ab12cd.mp3'']"
proof -
  have r: "engine_ready ready_processor" by (simp add: engine_ready_def ready_processor_def)
  have pf: "preflight big_clip = Some (Error msg_too_large)"
    by (simp add: preflight_def big_clip_size sizeLimit_def)
  have n: "inputName ''1700000000000_ab12cd'' big_clip = ''input_1700000000000_ab12cd.mp4''"
    by (simp add: inputName_def big_clip_def split_pop_def)
  from extractAudio_rejected [OF r pf, of mem_api "''1700000000000_ab12cd''" "[]" True "''mp3''" "''high''"]
  show ?thesis by (auto simp: n outputName_def)
qed

theorem oversize_rejected_without_write_witness:
  "\<exists>err p'. extractAudio mem_api ''1700000000000_ab12cd'' [] True big_clip ''mp3'' ''high''
      ready_processor =
     (Inl err, [],
      [ListDir ''/'', ListDir ''/'', DeleteFile ''input_1700000000000_ab12cd.mp4'',
       DeleteFile ''output_1700000000000_ab12cd.mp3''],
      p')"
proof -
  have big: "file_size big_clip > sizeLimit" by (simp add: big_clip_size sizeLimit_def)
  have r: "engine_ready ready_processor" by (simp add: engine_ready_def ready_processor_def)
  have n: "inputName ''1700000000000_ab12cd'' big_clip = ''input_1700000000000_ab12cd.mp4''"
    by (simp add: inputName_def big_clip_def split_pop_def)
  from oversize_rejected_without_write [OF big, of mem_api "''1700000000000_ab12cd''" "[]" True
      "''mp3''" "''high''" ready_processor] r
  show ?thesis by (simp add: n outputName_def)
qed

lemma note_call_trace: "snd (note_call k c) = snd c @ [k]"
  by (simp add: note_call_def)

lemma writeAndVerify_trace:
  "\<exists>ys. snd (snd (writeAndVerify api i f c)) = snd c @ WriteFile i (file_content f) # ys"
proof -
  obtain r1 c1 where w: "do_writeFile api i (file_content f) c = (r1, c1)"
    by (cases "do_writeFile api i (file_content f) c")
  then have t1: "snd c1 = snd c @ [WriteFile i (file_content f)]"
    using do_writeFile_trace [of api i "file_content f" c] by simp
  obtain r2 c2 where r: "do_readFile api i c1 = (r2, c2)" by (cases "do_readFile api i c1")
  then have t2: "snd c2 = snd c1 @ [ReadFile i]"
    using do_readFile_trace [of api i c1] by simp
  show ?thesis
    using w r t1 t2 by (cases r1; cases r2) (simp_all add: writeAndVerify_def Let_def)
qed

lemma runCommand_trace:
  "\<exists>ys. snd (snd (snd (runCommand api command schedule onProgress c))) = snd c @ ys"
proof -
  let ?c0 = "if onProgress then note_call OnProgress c else c"
  obtain r1 c1 where e: "do_exec api command ?c0 = (r1, c1)" by (cases "do_exec api command ?c0")
  then have t1: "snd c1 = snd ?c0 @ [Exec command]"
    using do_exec_trace [of api command ?c0] by simp
  show ?thesis
    using e t1 by (cases r1) (auto simp: runCommand_def Let_def note_call_trace)
qed

lemma readOutput_trace:
  "\<exists>ys. snd (snd (readOutput api out c)) = snd c @ ys"
proof -
  obtain r1 c1 where l: "do_listDir api ''/'' c = (r1, c1)" by (cases "do_listDir api ''/'' c")
  then have t1: "snd c1 = snd c @ [ListDir ''/'']" using do_listDir_trace [of api "''/''" c] by simp
  obtain r2 c2 where r: "do_readFile api out c1 = (r2, c2)" by (cases "do_readFile api out c1")
  then have t2: "snd c2 = snd c1 @ [ReadFile out]" using do_readFile_trace [of api out c1] by simp
  show ?thesis
    using l r t1 t2 by (cases r1; cases r2) (simp_all add: readOutput_def do_listDir_trace)
qed

lemma cleanup_trace:
  "\<exists>ys. snd (cleanup api i out c) = snd c @ ys"
proof -
  obtain r1 c1 where d: "do_deleteFile api i c = (r1, c1)" by (cases "do_deleteFile api i c")
  then have t1: "snd c1 = snd c @ [DeleteFile i]" using do_deleteFile_trace [of api i c] by simp
  show ?thesis
    using d t1 by (cases r1) (simp_all add: cleanup_def do_deleteFile_trace)
qed

lemma extract_try_accepted_trace:
  assumes "preflight f = None"
  shows "\<exists>ys. snd (snd (snd (extract_try api i out schedule onProgress f format quality c)))
           = snd c @ WriteFile i (file_content f) # ys"
proof -
  obtain r1 c1 where w: "writeAndVerify api i f c = (r1, c1)" by (cases "writeAndVerify api i f c")
  from writeAndVerify_trace [of api i f c] w obtain y1 where
    t1: "snd c1 = snd c @ WriteFile i (file_content f) # y1" by auto
  obtain r2 reps c2 where e:
    "runCommand api (codec_command i out format quality) schedule onProgress c1 = (r2, reps, c2)"
    by (cases "runCommand api (codec_command i out format quality) schedule onProgress c1")
  from runCommand_trace [of api "codec_command i out format quality" schedule onProgress c1] e
  obtain y2 where t2: "snd c2 = snd c1 @ y2" by auto
  obtain r3 c3 where r: "readOutput api out c2 = (r3, c3)" by (cases "readOutput api out c2")
  from readOutput_trace [of api out c2] r obtain y3 where t3: "snd c3 = snd c2 @ y3" by auto
  from cleanup_trace [of api i out c3] obtain y4 where
    t4: "snd (cleanup api i out c3) = snd c3 @ y4" by auto
  show ?thesis
    using assms w e r t1 t2 t3 t4
    by (cases r1; cases r2; cases r3) (simp_all add: extract_try_def)
qed

lemma extractAudio_accepted_trace:
  assumes "engine_ready p" "preflight f = None"
  shows "\<exists>ys. fst (snd (snd (extractAudio api uid schedule onProgress f format quality p)))
           = ListDir ''/'' # WriteFile (inputName uid f) (file_content f) # ys"
proof -
  from assms(1) obtain en where en: "ffmpeg p = Some en" and l: "loaded p"
    by (auto simp: engine_ready_def)
  let ?c0 = "snd (do_listDir api ''/'' (en, []))"
  have t0: "snd ?c0 = [ListDir ''/'']" by (simp add: do_listDir_trace)
  obtain r reps c where t:
    "extract_try api (inputName uid f) (outputName uid format) schedule onProgress f format quality ?c0
       = (r, reps, c)"
    by (cases "extract_try api (inputName uid f) (outputName uid format) schedule onProgress f format quality ?c0")
  from extract_try_accepted_trace [OF assms(2), of api "inputName uid f" "outputName uid format"
      schedule onProgress format quality ?c0] t t0
  obtain ys where tc: "snd c = ListDir ''/'' # WriteFile (inputName uid f) (file_content f) # ys"
    by auto
  show ?thesis
  proof (cases r)
    case (Inr blob)
    with en l t tc show ?thesis by (simp add: extractAudio_def Let_def)
  next
    case (Inl err)
    with en l t tc show ?thesis
      using extract_catch_result(2) [of api "inputName uid f" "outputName uid format" err c]
      by (auto simp: extractAudio_def Let_def split: prod.splits)
  qed
qed

text \<open>
  C9. For a file within the size limit on a ready engine: a supported declared type is
  accepted whatever the extension (the input is written as the second engine call);
  when the declared type is empty or not in the supported list, the file is accepted
  exactly when its extension is supported; and when neither holds, \<open>extractAudio\<close>
  throws the unsupported-format error, which the catch block passes on unchanged, with
  no write to the engine's file system: its only calls are two listings and two
  deletions.
\<close>

theorem type_check_precedence:
  assumes "engine_ready p" "file_size f \<le> sizeLimit"
  shows
  "(isTypeSupported f \<longrightarrow>
      take 2 (fst (snd (snd (extractAudio api uid schedule onProgress f format quality p))))
        = [ListDir ''/'', WriteFile (inputName uid f) (file_content f)])
 \<and> (\<not> isTypeSupported f \<longrightarrow>
      (isExtensionSupported f \<longleftrightarrow>
       take 2 (fst (snd (snd (extractAudio api uid schedule onProgress f format quality p))))
        = [ListDir ''/'', WriteFile (inputName uid f) (file_content f)]))
 \<and> (\<not> isTypeSupported f \<and> \<not> isExtensionSupported f \<longrightarrow>
      fst (extractAudio api uid schedule onProgress f format quality p) = Inl (Error msg_unsupported)
      \<and> fst (snd (snd (extractAudio api uid schedule onProgress f format quality p)))
          = [ListDir ''/'', ListDir ''/'', DeleteFile (inputName uid f),
             DeleteFile (outputName uid format)])"
proof -
  let ?trace = "fst (snd (snd (extractAudio api uid schedule onProgress f format quality p)))"
  have acc: "take 2 ?trace = [ListDir ''/'', WriteFile (inputName uid f) (file_content f)]"
    if "isTypeSupported f \<or> isExtensionSupported f"
  proof -
    from that assms(2) have "preflight f = None" by (auto simp: preflight_def)
    from extractAudio_accepted_trace [OF assms(1) this, of api uid schedule onProgress format quality]
    show ?thesis by (auto simp: numeral_2_eq_2)
  qed
  have rej: "fst (extractAudio api uid schedule onProgress f format quality p) = Inl (Error msg_unsupported)
      \<and> ?trace = [ListDir ''/'', ListDir ''/'', DeleteFile (inputName uid f),
             DeleteFile (outputName uid format)]"
    if "\<not> isTypeSupported f" "\<not> isExtensionSupported f"
  proof -
    from that assms(2) have "preflight f = Some (Error msg_unsupported)" by (simp add: preflight_def)
    from extractAudio_rejected [OF assms(1) this, of api uid schedule onProgress format quality]
    show ?thesis by (auto simp: classify_unsupported)
  qed
  have "take 2 ?trace \<noteq> [ListDir ''/'', WriteFile (inputName uid f) (file_content f)]"
    if "\<not> isTypeSupported f" "\<not> isExtensionSupported f"
    using rej [OF that] by (simp add: numeral_2_eq_2)
  with acc rej show ?thesis by blast
qed

lemma typed_only_checks: "isTypeSupported typed_only" "\<not> isExtensionSupported typed_only"
  by (simp_all add: isTypeSupported_def isExtensionSupported_def typed_only_def supportedTypes_def
     supportedExtensions_def fileExtension_def split_pop_def toLowerCase_str_def lower_char_def)

lemma ext_only_checks: "\<not> isTypeSupported ext_only" "isExtensionSupported ext_only"
  by code_simp+

lemma notes_txt_checks: "\<not> isTypeSupported notes_txt" "\<not> isExtensionSupported notes_txt"
  by (simp_all add: isTypeSupported_def isExtensionSupported_def notes_txt_def supportedTypes_def
     supportedExtensions_def fileExtension_def split_pop_def toLowerCase_str_def lower_char_def)

theorem type_check_precedence_witness:
  "take 2 (fst (snd (snd (extractAudio mem_api ''1700000000000_ab12cd'' [] True typed_only
      ''mp3'' ''high'' ready_processor))))
     = [ListDir ''/'', WriteFile ''input_1700000000000_ab12cd.bin'' [1, 2, 3]]
 \<and> take 2 (fst (snd (snd (extractAudio mem_api ''1700000000000_ab12cd'' [] True ext_only
      ''mp3'' ''high'' ready_processor))))
     = [ListDir ''/'', WriteFile ''input_1700000000000_ab12cd.MKV'' [1, 2, 3]]
 \<and> fst (extractAudio mem_api ''1700000000000_ab12cd'' [] True notes_txt ''mp3'' ''high''
      ready_processor) = Inl (Error msg_unsupported)
 \<and> fst (snd (snd (extractAudio mem_api ''1700000000000_ab12cd'' [] True notes_txt ''mp3'' ''high''
      ready_processor)))
     = [ListDir ''/'', ListDir ''/'', DeleteFile ''input_1700000000000_ab12cd.txt'',
        DeleteFile ''output_1700000000000_ab12cd.mp3'']"
proof -
  have r: "engine_ready ready_processor" by (simp add: engine_ready_def ready_processor_def)
  have s: "file_size typed_only \<le> sizeLimit" "file_size ext_only \<le> sizeLimit"
    "file_size notes_txt \<le> sizeLimit"
    by (simp_all add: file_size_def sizeLimit_def typed_only_def ext_only_def notes_txt_def)
  have n: "inputName ''1700000000000_ab12cd'' typed_only = ''input_1700000000000_ab12cd.bin''"
    "inputName ''1700000000000_ab12cd'' ext_only = ''input_1700000000000_ab12cd.MKV''"
    "inputName ''1700000000000_ab12cd'' notes_txt = ''input_1700000000000_ab12cd.txt''"
    "outputName ''1700000000000_ab12cd'' ''mp3'' = ''output_1700000000000_ab12cd.mp3''"
    by (simp_all add: inputName_def outputName_def split_pop_def typed_only_def ext_only_def
        notes_txt_def)
  have c: "file_content typed_only = [1, 2, 3]" "file_content ext_only = [1, 2, 3]"
    by (simp_all add: typed_only_def ext_only_def)
  note t1 = type_check_precedence [OF r s(1), of mem_api "''1700000000000_ab12cd''" "[]" True "''mp3''" "''high''"]
  note t2 = type_check_precedence [OF r s(2), of mem_api "''1700000000000_ab12cd''" "[]" True "''mp3''" "''high''"]
  note t3 = type_check_precedence [OF r s(3), of mem_api "''1700000000000_ab12cd''" "[]" True "''mp3''" "''high''"]
  from t1 t2 t3 typed_only_checks ext_only_checks notes_txt_checks show ?thesis
    by (simp add: n c)
qed

text \<open>
  Whatever the length of the data read back, \<open>writeAndVerify\<close> succeeds once the write
  and the read have; the mismatch only shows in what is logged.
\<close>

lemma writeAndVerify_mismatch_logged_only:
  "do_writeFile api i (file_content f) c = (Inr u, c1) \<Longrightarrow>
   do_readFile api i c1 = (Inr d, c2) \<Longrightarrow>
   writeAndVerify api i f c = (Inr (length d \<noteq> length (file_content f)), c2)"
  by (simp add: writeAndVerify_def Let_def)

text \<open>
  C2. On an engine that stores only the first byte of what is written, the three bytes
  of the source are read back as one. \<open>extractAudio\<close> notices the mismatch but does
  not throw: it builds and runs the codec command and returns the extracted audio.
\<close>

theorem size_mismatch_still_executes:
  "fst (writeAndVerify short_write_api ''input_1700000000000_ab12cd.mp4'' clip_a
          (\<lparr> vfs = [], core = True \<rparr>, [])) = Inr True
 \<and> extractAudio short_write_api ''1700000000000_ab12cd'' [] True clip_a ''mp3'' ''high''
       ready_processor
     = (Inr \<lparr> blob_data = [0x49, 0x44, 0x33], blob_type = ''audio/mpeg'' \<rparr>, [100],
        [ListDir ''/'',
         WriteFile ''input_1700000000000_ab12cd.mp4'' [1, 2, 3],
         ReadFile ''input_1700000000000_ab12cd.mp4'',
         OnProgress,
         Exec [''-i'', ''input_1700000000000_ab12cd.mp4'', ''-vn'', ''-acodec'', ''libmp3lame'',
               ''-b:a'', ''320k'', ''output_1700000000000_ab12cd.mp3''],
         OffProgress,
         ListDir ''/'',
         ReadFile ''output_1700000000000_ab12cd.mp3'',
         DeleteFile ''input_1700000000000_ab12cd.mp4'',
         DeleteFile ''output_1700000000000_ab12cd.mp3''],
        ready_processor)"
proof -
  let ?i = "''input_1700000000000_ab12cd.mp4''" and ?o = "''output_1700000000000_ab12cd.mp3''"
  let ?cmd = "[''-i'', ?i, ''-vn'', ''-acodec'', ''libmp3lame'', ''-b:a'', ''320k'', ?o]"
  let ?e1 = "\<lparr> vfs = [(?i, [1])], core = True \<rparr>"
  let ?e2 = "\<lparr> vfs = [(?o, [0x49, 0x44, 0x33]), (?i, [1])], core = True \<rparr>"
  let ?t1 = "[ListDir ''/'', WriteFile ?i [1, 2, 3], ReadFile ?i]"
  let ?t2 = "[ListDir ''/'', WriteFile ?i [1, 2, 3], ReadFile ?i, OnProgress, Exec ?cmd, OffProgress]"
  let ?t3 = "[ListDir ''/'', WriteFile ?i [1, 2, 3], ReadFile ?i, OnProgress, Exec ?cmd, OffProgress,
             ListDir ''/'', ReadFile ?o]"
  let ?t4 = "[ListDir ''/'', WriteFile ?i [1, 2, 3], ReadFile ?i, OnProgress, Exec ?cmd, OffProgress,
             ListDir ''/'', ReadFile ?o, DeleteFile ?i, DeleteFile ?o]"
  have pf: "preflight clip_a = None"
    by (simp add: preflight_def file_size_def sizeLimit_def clip_a_def isTypeSupported_def
        supportedTypes_def)
  have n: "inputName ''1700000000000_ab12cd'' clip_a = ?i"
    "outputName ''1700000000000_ab12cd'' ''mp3'' = ?o"
    by (simp_all add: inputName_def outputName_def split_pop_def clip_a_def)
  have cmd: "codec_command ?i ?o ''mp3'' ''high'' = ?cmd"
    by (simp add: codec_command_def getQualityParams_def)
  have l0: "do_listDir short_write_api ''/'' (\<lparr> vfs = [], core = True \<rparr>, [])
      = (Inr [], \<lparr> vfs = [], core = True \<rparr>, [ListDir ''/''])"
    by (simp add: do_listDir_def short_write_api_def mem_api_def)
  have wv: "writeAndVerify short_write_api ?i clip_a (\<lparr> vfs = [], core = True \<rparr>, [ListDir ''/''])
      = (Inr True, ?e1, ?t1)"
    by (simp add: writeAndVerify_def short_write_api_def mem_api_def do_writeFile_def
        do_readFile_def clip_a_def Let_def)
  have wv0: "fst (writeAndVerify short_write_api ?i clip_a (\<lparr> vfs = [], core = True \<rparr>, []))
      = Inr True"
    by (simp add: writeAndVerify_def short_write_api_def mem_api_def do_writeFile_def
        do_readFile_def clip_a_def Let_def)
  have rc: "runCommand short_write_api ?cmd [] True (?e1, ?t1) = (Inr (), [100], ?e2, ?t2)"
    by (simp add: runCommand_def progress_during_def note_call_def do_exec_def
        short_write_api_def mem_api_def Let_def)
  have ro: "readOutput short_write_api ?o (?e2, ?t2) = (Inr [0x49, 0x44, 0x33], ?e2, ?t3)"
    by (simp add: readOutput_def do_listDir_def do_readFile_def short_write_api_def mem_api_def)
  have cl: "cleanup short_write_api ?i ?o (?e2, ?t3)
      = (\<lparr> vfs = [], core = True \<rparr>, ?t4)"
    by (simp add: cleanup_def do_deleteFile_def short_write_api_def mem_api_def)
  have tr: "extract_try short_write_api ?i ?o [] True clip_a ''mp3'' ''high''
        (\<lparr> vfs = [], core = True \<rparr>, [ListDir ''/''])
      = (Inr \<lparr> blob_data = [0x49, 0x44, 0x33], blob_type = ''audio/mpeg'' \<rparr>, [100],
         \<lparr> vfs = [], core = True \<rparr>, ?t4)"
    unfolding extract_try_def pf cmd
    by (simp add: wv) (simp add: rc ro cl getMimeType_def)
  show ?thesis
    unfolding extractAudio_def n Let_def
    by (simp add: ready_processor_def l0 wv0) (simp add: tr ready_processor_def)
qed

theorem size_mismatch_still_executes_witness:
  "Exec [''-i'', ''input_1700000000000_ab12cd.mp4'', ''-vn'', ''-acodec'', ''libmp3lame'',
         ''-b:a'', ''320k'', ''output_1700000000000_ab12cd.mp3'']
     \<in> set (fst (snd (snd (extractAudio short_write_api ''1700000000000_ab12cd'' [] True clip_a
                 ''mp3'' ''high'' ready_processor))))"
  using size_mismatch_still_executes by simp

lemma js_round_le_95: "x \<le> 95 \<Longrightarrow> js_round x \<le> 95"
proof -
  assume "x \<le> 95"
  then have "x + 1 / 2 < of_int 96" by simp
  then have "\<lfloor>x + 1 / 2\<rfloor> < 96" by (simp only: floor_less_iff)
  then show ?thesis by (simp add: js_round_def)
qed

lemma progress_step_new:
  "v \<in> set (snd (progress_step ev (l, reps))) \<Longrightarrow>
   v \<in> set reps \<or> v \<le> 95 \<or> v \<in> set (genuine_percent ev)"
  by (cases ev) (auto simp: Let_def js_round_le_95 split: if_splits)

lemma fold_progress_new:
  "v \<in> set (snd (fold progress_step schedule (l, reps))) \<Longrightarrow>
   v \<in> set reps \<or> v \<le> 95 \<or> v \<in> set (genuine_percents schedule)"
proof (induction schedule arbitrary: l reps)
  case Nil
  then show ?case by simp
next
  case (Cons ev schedule)
  obtain l' reps' where st: "progress_step ev (l, reps) = (l', reps')"
    by (cases "progress_step ev (l, reps)")
  with Cons.prems have "v \<in> set (snd (fold progress_step schedule (l', reps')))" by simp
  from Cons.IH [OF this] have "v \<in> set reps' \<or> v \<le> 95 \<or> v \<in> set (genuine_percents schedule)" .
  moreover have "v \<in> set reps' \<Longrightarrow> v \<in> set reps \<or> v \<le> 95 \<or> v \<in> set (genuine_percent ev)"
    using progress_step_new [of v ev l reps] st by simp
  ultimately show ?case by (auto simp: genuine_percents_def)
qed

lemma int_le_of_half: "(of_int v :: real) < of_int w + 1 / 2 \<Longrightarrow> v \<le> w"
proof (rule ccontr)
  assume a: "(of_int v :: real) < of_int w + 1 / 2" and "\<not> v \<le> w"
  then have "w + 1 \<le> v" by simp
  then have "(of_int (w + 1) :: real) \<le> of_int v" by (simp only: of_int_le_iff)
  with a show False by simp
qed

lemma progress_step_inv: "progress_inv st \<Longrightarrow> progress_inv (progress_step ev st)"
proof (cases st)
  case (Pair l reps)
  assume inv: "progress_inv st"
  with Pair have sr: "sorted reps" and bd: "\<forall>v \<in> set reps. of_int v \<le> l + 1 / 2"
    by (simp_all add: progress_inv_def list_all_iff)
  show ?thesis
  proof (cases ev)
    case (EngineProgress x)
    let ?pp = "js_round x"
    show ?thesis
    proof (cases "of_int ?pp > l")
      case True
      have "\<forall>v \<in> set reps. v \<le> ?pp"
      proof
        fix v assume "v \<in> set reps"
        with bd True have "(of_int v :: real) < of_int ?pp + 1 / 2" by fastforce
        then show "v \<le> ?pp" by (rule int_le_of_half)
      qed
      moreover have "\<forall>v \<in> set reps. (of_int v :: real) \<le> of_int ?pp + 1 / 2"
        using bd True by fastforce
      ultimately show ?thesis
        using Pair EngineProgress True sr
        by (simp add: progress_inv_def list_all_iff sorted_append Let_def)
    next
      case False
      with Pair EngineProgress inv show ?thesis by (simp add: Let_def)
    qed
  next
    case (TimerTick s)
    let ?nw = "min s 95"
    show ?thesis
    proof (cases "l < 95 \<and> ?nw > l")
      case True
      have "\<forall>v \<in> set reps. v \<le> js_round ?nw"
      proof
        fix v assume "v \<in> set reps"
        with bd True have "(of_int v :: real) \<le> ?nw + 1 / 2" by fastforce
        then show "v \<le> js_round ?nw" by (simp only: js_round_def le_floor_iff)
      qed
      moreover have "\<forall>v \<in> set reps. (of_int v :: real) \<le> ?nw + 1 / 2"
        using bd True by fastforce
      moreover have "(of_int (js_round ?nw) :: real) \<le> ?nw + 1 / 2"
        by (simp only: js_round_def of_int_floor_le)
      ultimately show ?thesis
        using Pair TimerTick True sr
        by (simp add: progress_inv_def list_all_iff sorted_append Let_def)
    next
      case False
      with Pair TimerTick inv show ?thesis by (auto simp: Let_def)
    qed
  qed
qed

lemma fold_progress_inv: "progress_inv st \<Longrightarrow> progress_inv (fold progress_step schedule st)"
  by (induction schedule arbitrary: st) (simp_all add: progress_step_inv)

lemma progress_during_sorted: "sorted (snd (progress_during schedule))"
proof -
  have "progress_inv (0, [])" by (simp add: progress_inv_def)
  then have "progress_inv (progress_during schedule)"
    unfolding progress_during_def by (rule fold_progress_inv)
  then show ?thesis by (simp add: progress_inv_def)
qed

lemma progress_during_bound:
  "v \<in> set (snd (progress_during schedule)) \<Longrightarrow> v \<le> 95 \<or> v \<in> set (genuine_percents schedule)"
  using fold_progress_new [of v schedule 0 "[]"] by (simp add: progress_during_def)

lemma progress_step_running:
  "fst (progress_step ev (l, reps)) =
     max l (case ev of
              EngineProgress x \<Rightarrow> of_int (js_round x)
            | TimerTick s \<Rightarrow> if l < 95 then min s 95 else l)"
  by (cases ev) (auto simp: Let_def)

lemma progress_step_engine:
  "snd (progress_step (EngineProgress x) (l, reps)) =
     (if of_int (js_round x) > l then reps @ [js_round x] else reps)"
  by (simp add: Let_def)

lemma progress_step_tick:
  "snd (progress_step (TimerTick s) (l, reps)) =
     (if l < 95 \<and> min s 95 > l then reps @ [js_round (min s 95)] else reps)
   \<and> js_round (min s 95) \<le> 95"
  by (simp add: Let_def js_round_le_95)

lemma runCommand_reports:
  "fst (snd (runCommand api command schedule True c)) =
     (if fst (runCommand api command schedule True c) = Inr ()
      then snd (progress_during schedule) @ [100]
      else snd (progress_during schedule))"
  by (auto simp: runCommand_def Let_def split: prod.splits sum.splits)

lemma all_reports_sorted:
  assumes "list_all (\<lambda>v. v \<le> 100) (genuine_percents schedule)"
  shows "sorted (snd (progress_during schedule) @ [100])"
proof -
  have "v \<le> 100" if "v \<in> set (snd (progress_during schedule))" for v
    using progress_during_bound [OF that] assms by (auto simp: list_all_iff)
  then show ?thesis
    by (simp add: sorted_append progress_during_sorted)
qed

text \<open>
  C6. While the codec command runs, a value passed to the progress callback is above 95
  only if it is a percentage the engine itself reported: a timer tick passes on at most
  one value, which is at most 95, and a genuine percentage (rounded) is passed on,
  without a cap, exactly when it exceeds the running value. The values passed on while
  the command runs never decrease. After each event the running value is the maximum
  of its previous value and the event's value: the rounded genuine percentage, or,
  below 95, the filler's sum of the previous value and its increment, capped at 95.
  When the command completes, 100 is reported last, after the values reported while it
  ran; when it fails, nothing is added. With the final 100 the whole sequence never
  decreases provided the engine reported no percentage above 100.
\<close>

theorem progress_blend:
  "(\<forall>v \<in> set (snd (progress_during schedule)). v \<le> 95 \<or> v \<in> set (genuine_percents schedule))
 \<and> sorted (snd (progress_during schedule))
 \<and> snd (progress_step (EngineProgress x) (l, reps)) =
      (if of_int (js_round x) > l then reps @ [js_round x] else reps)
 \<and> snd (progress_step (TimerTick s) (l, reps)) =
      (if l < 95 \<and> min s 95 > l then reps @ [js_round (min s 95)] else reps)
 \<and> js_round (min s 95) \<le> 95
 \<and> fst (progress_step ev (l, reps)) =
      max l (case ev of
               EngineProgress y \<Rightarrow> of_int (js_round y)
             | TimerTick t \<Rightarrow> if l < 95 then min t 95 else l)
 \<and> fst (snd (runCommand api command schedule True c)) =
      (if fst (runCommand api command schedule True c) = Inr ()
       then snd (progress_during schedule) @ [100]
       else snd (progress_during schedule))
 \<and> (list_all (\<lambda>v. v \<le> 100) (genuine_percents schedule) \<longrightarrow>
      sorted (snd (progress_during schedule) @ [100]))"
  using progress_during_bound [of _ schedule] progress_during_sorted [of schedule]
    progress_step_engine [of x l reps] progress_step_tick [of s l reps]
    progress_step_running [of ev l reps] runCommand_reports [of api command schedule c]
    all_reports_sorted [of schedule]
  by blast

text \<open>
  C6, as stated: the reported value does not stay at or below 95 until the command
  completes. When the engine reports the fraction 31/32 while the command is still
  running, 97 is passed to the callback.
\<close>

theorem progress_cap_counterexample:
  "snd (progress_during [EngineProgress (775 / 8)]) = [97]"
  by (simp add: progress_during_def js_round_def)

theorem progress_blend_witness:
  "snd (progress_during schedule_a) = [2, 97]
 \<and> genuine_percents schedule_a = [97, 50]
 \<and> fst (snd (runCommand mem_api [''-version''] schedule_a True (\<lparr> vfs = [], core = True \<rparr>, [])))
     = [2, 97, 100]
 \<and> sorted ([2, 97, 100] :: int list)"
proof -
  have d: "snd (progress_during schedule_a) = [2, 97]"
    by (simp add: progress_during_def schedule_a_def js_round_def Let_def)
  have g: "genuine_percents schedule_a = [97, 50]"
    by (simp add: genuine_percents_def schedule_a_def js_round_def)
  have ok: "fst (runCommand mem_api [''-version''] schedule_a True (\<lparr> vfs = [], core = True \<rparr>, []))
      = Inr ()"
    by (simp add: runCommand_def do_exec_def mem_api_def note_call_def Let_def)
  have le: "list_all (\<lambda>v. v \<le> 100) (genuine_percents schedule_a)"
    by (simp add: g)
  from progress_blend [of schedule_a "775 / 8" 0 "[]" "3 / 2" "TimerTick (3 / 2)" mem_api
      "[''-version'']" "(\<lparr> vfs = [], core = True \<rparr>, [])"] ok d le
  have "fst (snd (runCommand mem_api [''-version''] schedule_a True (\<lparr> vfs = [], core = True \<rparr>, [])))
      = [2, 97, 100]" and "sorted ([2, 97, 100] :: int list)"
    by simp_all
  with d g show ?thesis by simp
qed

end
